theory Spec2Isabelle
  imports
    Main
    "HOL-Library.Word"
    "HOL-Library.Multiset"
    "HOL-Library.Char_ord"
    "HOL-Library.List_Lexorder"
    "HOL-Library.AList"
    "HOL-Library.Sublist"
begin

section \<open>Go values shared by the packages\<close>

text \<open>
  A Go \<^verbatim>\<open>[]string\<close> is either \<^verbatim>\<open>nil\<close> or a sequence of strings; both the nil slice
  and the empty non-nil slice have length zero, yet \<^verbatim>\<open>s != nil\<close> tells them apart, and
  \<^verbatim>\<open>UpdateIssueInput.Labels\<close> depends on that difference.  \<open>None\<close> is the nil slice.
  A Go \<^verbatim>\<open>string\<close> is a byte sequence, compared bytewise and lexicographically, which is
  the order of \<open>char list\<close> here.
\<close>

type_synonym slice = "string list option"

definition elems :: "slice \<Rightarrow> string list" where
  "elems s = (case s of None \<Rightarrow> [] | Some xs \<Rightarrow> xs)"

definition len :: "slice \<Rightarrow> nat" where
  "len s = length (elems s)"

definition slices_Clone :: "slice \<Rightarrow> slice" where
  "slices_Clone s = s"

definition sort_Strings :: "slice \<Rightarrow> slice" where
  "sort_Strings s = map_option sort s"

definition slices_Equal :: "slice \<Rightarrow> slice \<Rightarrow> bool" where
  "slices_Equal s t = (if len s \<noteq> len t then False else elems s = elems t)"

section \<open>Package controller: the drift check's label comparison\<close>

definition labelsMatch :: "slice \<Rightarrow> slice \<Rightarrow> bool" where
  "labelsMatch a b =
     (if len a \<noteq> len b then False
      else let aCopy = slices_Clone a;
               bCopy = slices_Clone b;
               aCopy = sort_Strings aCopy;
               bCopy = sort_Strings bCopy
           in slices_Equal aCopy bCopy)"

section \<open>Package providers: the issue model and the provider interface\<close>

text \<open>
  Go's \<^verbatim>\<open>int\<close> is taken as the 64-bit two's complement integer of the platforms the
  operator is built for: \<open>+\<close> wraps, and comparisons with zero are signed.
  An \<^verbatim>\<open>error\<close> value is either one that \<^verbatim>\<open>apierrors.IsNotFound\<close> recognises or any
  other failure; both carry their message.
\<close>

type_synonym go_int = "64 word"

datatype error = NotFound string | Failure string

definition IsNotFound :: "error \<Rightarrow> bool" where
  "IsNotFound err = (case err of NotFound _ \<Rightarrow> True | Failure _ \<Rightarrow> False)"

text \<open>The \<^verbatim>\<open>%d\<close> verb of \<^verbatim>\<open>fmt.Sprintf\<close>: the decimal digits, with a minus sign.\<close>

fun digits :: "nat \<Rightarrow> string" where
  "digits n =
     (if n < 10 then [''0123456789'' ! n]
      else digits (n div 10) @ [''0123456789'' ! (n mod 10)])"

declare digits.simps [simp del]

definition itoa :: "go_int \<Rightarrow> string" where
  "itoa n = (if sint n < 0 then ''-'' @ digits (nat (- sint n)) else digits (nat (sint n)))"

text \<open>
  The structs of the package.  Field names that several structs share carry the struct's
  initial here: \<open>in_\<close> for \<^verbatim>\<open>CreateIssueInput\<close>, \<open>upd_\<close> for \<^verbatim>\<open>UpdateIssueInput\<close>.
\<close>

record Issue =
  Number :: go_int
  URL :: string
  State :: string
  Title :: string
  Body :: string
  Labels :: slice

record CreateIssueInput =
  in_Repo :: string
  in_Title :: string
  in_Body :: string
  in_Labels :: slice

record UpdateIssueInput =
  upd_Title :: string
  upd_Body :: string
  upd_Labels :: slice

text \<open>
  \<^verbatim>\<open>IssueProvider\<close> is an interface; an implementation is a record of its five methods
  over the implementation's own state \<open>'p\<close>, each returning the state it leaves behind.
  A method that returns \<^verbatim>\<open>(*Issue, error)\<close> yields either the error or the issue: the
  implementations of the package return a non-nil issue exactly when the error is nil.
  The \<^verbatim>\<open>context.Context\<close> argument is not read by any of them and is left out.
\<close>

record 'p IssueProvider =
  Create :: "string \<Rightarrow> CreateIssueInput \<Rightarrow> 'p \<Rightarrow> (error + Issue) \<times> 'p"
  Get :: "string \<Rightarrow> string \<Rightarrow> go_int \<Rightarrow> 'p \<Rightarrow> (error + Issue) \<times> 'p"
  Update :: "string \<Rightarrow> string \<Rightarrow> go_int \<Rightarrow> UpdateIssueInput \<Rightarrow> 'p \<Rightarrow> (error + Issue) \<times> 'p"
  Close :: "string \<Rightarrow> string \<Rightarrow> go_int \<Rightarrow> 'p \<Rightarrow> error option \<times> 'p"
  Reopen :: "string \<Rightarrow> string \<Rightarrow> go_int \<Rightarrow> 'p \<Rightarrow> error option \<times> 'p"

subsection \<open>MockProvider, the in-memory implementation\<close>

text \<open>
  The mutex serialises the methods, so each is a function from the mock's state to the
  result and the new state.  The map holds pointers in the source; the methods here
  return the stored issue by value.  The four override hooks are functions of their
  arguments.  There is no hook and no counter for Reopen.
\<close>

record MockProvider =
  issues :: "string \<rightharpoonup> Issue"
  nextNumber :: go_int
  CreateFunc :: "(string \<Rightarrow> CreateIssueInput \<Rightarrow> error + Issue) option"
  GetFunc :: "(string \<Rightarrow> string \<Rightarrow> go_int \<Rightarrow> error + Issue) option"
  UpdateFunc :: "(string \<Rightarrow> string \<Rightarrow> go_int \<Rightarrow> UpdateIssueInput \<Rightarrow> error + Issue) option"
  CloseFunc :: "(string \<Rightarrow> string \<Rightarrow> go_int \<Rightarrow> error option) option"
  CreateCalled :: go_int
  GetCalled :: go_int
  UpdateCalled :: go_int
  CloseCalled :: go_int

definition NewMockProvider :: MockProvider where
  "NewMockProvider =
     \<lparr>issues = Map.empty, nextNumber = 1,
      CreateFunc = None, GetFunc = None, UpdateFunc = None, CloseFunc = None,
      CreateCalled = 0, GetCalled = 0, UpdateCalled = 0, CloseCalled = 0\<rparr>"

definition issueKey :: "string \<Rightarrow> go_int \<Rightarrow> string" where
  "issueKey repo number = repo @ ''#'' @ itoa number"

definition issue_not_found :: "string \<Rightarrow> go_int \<Rightarrow> error" where
  "issue_not_found repo issueNumber =
     Failure (''issue not found: '' @ repo @ ''#'' @ itoa issueNumber)"

definition MockProvider_Create ::
  "string \<Rightarrow> CreateIssueInput \<Rightarrow> MockProvider \<Rightarrow> (error + Issue) \<times> MockProvider"
where
  "MockProvider_Create token input m0 =
     (let m = m0\<lparr>CreateCalled := CreateCalled m0 + 1\<rparr> in
      case CreateFunc m of
        Some f \<Rightarrow> (f token input, m)
      | None \<Rightarrow>
          let issue = \<lparr>Number = nextNumber m,
                       URL = ''https://github.com/'' @ in_Repo input @ ''/issues/''
                             @ itoa (nextNumber m),
                       State = ''open'',
                       Title = in_Title input,
                       Body = in_Body input,
                       Labels = in_Labels input\<rparr>
          in (Inr issue,
              m\<lparr>issues := (issues m)(issueKey (in_Repo input) (nextNumber m) \<mapsto> issue),
                nextNumber := nextNumber m + 1\<rparr>))"

definition MockProvider_Get ::
  "string \<Rightarrow> string \<Rightarrow> go_int \<Rightarrow> MockProvider \<Rightarrow> (error + Issue) \<times> MockProvider"
where
  "MockProvider_Get token repo issueNumber m0 =
     (let m = m0\<lparr>GetCalled := GetCalled m0 + 1\<rparr> in
      case GetFunc m of
        Some f \<Rightarrow> (f token repo issueNumber, m)
      | None \<Rightarrow>
          (case issues m (issueKey repo issueNumber) of
             None \<Rightarrow> (Inl (issue_not_found repo issueNumber), m)
           | Some issue \<Rightarrow> (Inr issue, m)))"

definition MockProvider_Update ::
  "string \<Rightarrow> string \<Rightarrow> go_int \<Rightarrow> UpdateIssueInput \<Rightarrow> MockProvider
     \<Rightarrow> (error + Issue) \<times> MockProvider"
where
  "MockProvider_Update token repo issueNumber input m0 =
     (let m = m0\<lparr>UpdateCalled := UpdateCalled m0 + 1\<rparr> in
      case UpdateFunc m of
        Some f \<Rightarrow> (f token repo issueNumber input, m)
      | None \<Rightarrow>
          let key = issueKey repo issueNumber in
          (case issues m key of
             None \<Rightarrow> (Inl (issue_not_found repo issueNumber), m)
           | Some issue0 \<Rightarrow>
               let issue1 = (if upd_Title input \<noteq> [] then issue0\<lparr>Title := upd_Title input\<rparr>
                             else issue0);
                   issue2 = (if upd_Body input \<noteq> [] then issue1\<lparr>Body := upd_Body input\<rparr>
                             else issue1);
                   issue3 = (if upd_Labels input \<noteq> None
                             then issue2\<lparr>Labels := upd_Labels input\<rparr> else issue2)
               in (Inr issue3, m\<lparr>issues := (issues m)(key \<mapsto> issue3)\<rparr>)))"

definition MockProvider_Close ::
  "string \<Rightarrow> string \<Rightarrow> go_int \<Rightarrow> MockProvider \<Rightarrow> error option \<times> MockProvider"
where
  "MockProvider_Close token repo issueNumber m0 =
     (let m = m0\<lparr>CloseCalled := CloseCalled m0 + 1\<rparr> in
      case CloseFunc m of
        Some f \<Rightarrow> (f token repo issueNumber, m)
      | None \<Rightarrow>
          let key = issueKey repo issueNumber in
          (case issues m key of
             None \<Rightarrow> (Some (issue_not_found repo issueNumber), m)
           | Some issue \<Rightarrow>
               (None, m\<lparr>issues := (issues m)(key \<mapsto> issue\<lparr>State := ''closed''\<rparr>)\<rparr>)))"

definition MockProvider_Reopen ::
  "string \<Rightarrow> string \<Rightarrow> go_int \<Rightarrow> MockProvider \<Rightarrow> error option \<times> MockProvider"
where
  "MockProvider_Reopen token repo issueNumber m =
     (let key = issueKey repo issueNumber in
      case issues m key of
        None \<Rightarrow> (Some (issue_not_found repo issueNumber), m)
      | Some issue \<Rightarrow> (None, m\<lparr>issues := (issues m)(key \<mapsto> issue\<lparr>State := ''open''\<rparr>)\<rparr>))"

definition MockProvider_Reset :: "MockProvider \<Rightarrow> MockProvider" where
  "MockProvider_Reset m =
     m\<lparr>issues := Map.empty, nextNumber := 1,
       CreateCalled := 0, GetCalled := 0, UpdateCalled := 0, CloseCalled := 0\<rparr>"

definition MockProvider_GetIssue :: "MockProvider \<Rightarrow> string \<Rightarrow> go_int \<Rightarrow> Issue option" where
  "MockProvider_GetIssue m repo number = issues m (issueKey repo number)"

text \<open>
  The \<^verbatim>\<open>/stats\<close> route of \<^verbatim>\<open>Handler\<close>: the map it encodes, from the key to the number.
  \<^verbatim>\<open>len(m.issues)\<close> is the number of keys of the map.
\<close>

definition stats :: "MockProvider \<Rightarrow> (string \<rightharpoonup> go_int)" where
  "stats m = map_of
     [(''createCalled'', CreateCalled m),
      (''getCalled'', GetCalled m),
      (''updateCalled'', UpdateCalled m),
      (''closeCalled'', CloseCalled m),
      (''totalIssues'', of_nat (card (dom (issues m))))]"

definition counters :: "MockProvider \<Rightarrow> go_int \<times> go_int \<times> go_int \<times> go_int" where
  "counters m = (CreateCalled m, GetCalled m, UpdateCalled m, CloseCalled m)"

text \<open>The mock as an implementation of the interface.\<close>

definition MockProvider_impl :: "MockProvider IssueProvider" where
  "MockProvider_impl =
     \<lparr>Create = MockProvider_Create, Get = MockProvider_Get, Update = MockProvider_Update,
      Close = MockProvider_Close, Reopen = MockProvider_Reopen\<rparr>"

subsection \<open>GitHubProvider.Update, the live adapter\<close>

text \<open>
  \<^verbatim>\<open>github.IssueRequest\<close> has pointer fields: a nil pointer (\<open>None\<close>) leaves the field
  out of the request.  \<^verbatim>\<open>github.Issue\<close> and \<^verbatim>\<open>github.Label\<close> have pointer fields too,
  read through getters that give the zero value for nil.  Error messages are shortened.
\<close>

record IssueRequest =
  req_Title :: "string option"
  req_Body :: "string option"
  req_Labels :: "slice option"
  req_State :: "string option"

record Label =
  label_Name :: "string option"

record github_Issue =
  gh_Number :: "go_int option"
  gh_HTMLURL :: "string option"
  gh_State :: "string option"
  gh_Title :: "string option"
  gh_Body :: "string option"
  gh_Labels :: "Label list"

definition GetNumber :: "github_Issue \<Rightarrow> go_int" where
  "GetNumber i = (case gh_Number i of None \<Rightarrow> 0 | Some n \<Rightarrow> n)"

definition GetString :: "string option \<Rightarrow> string" where
  "GetString p = (case p of None \<Rightarrow> [] | Some v \<Rightarrow> v)"

fun strings_Split :: "string \<Rightarrow> char \<Rightarrow> string list" where
  "strings_Split [] sep = [[]]"
| "strings_Split (c # cs) sep =
     (if c = sep then [] # strings_Split cs sep
      else (case strings_Split cs sep of
              [] \<Rightarrow> [[c]]
            | part # parts \<Rightarrow> (c # part) # parts))"

definition parseRepo :: "string \<Rightarrow> error + (string \<times> string)" where
  "parseRepo repo =
     (case strings_Split repo (CHR ''/'') of
        [owner, repoName] \<Rightarrow> Inr (owner, repoName)
      | _ \<Rightarrow> Inl (Failure (''invalid repo format '' @ repo)))"

fun extractLabels :: "Label list \<Rightarrow> string list" where
  "extractLabels [] = []"
| "extractLabels (label # labels) =
     (case label_Name label of
        Some name \<Rightarrow> name # extractLabels labels
      | None \<Rightarrow> extractLabels labels)"

definition Update_request :: "UpdateIssueInput \<Rightarrow> IssueRequest" where
  "Update_request input =
     (let issueRequest = \<lparr>req_Title = None, req_Body = None, req_Labels = None, req_State = None\<rparr>;
          issueRequest = (if upd_Title input \<noteq> []
                          then issueRequest\<lparr>req_Title := Some (upd_Title input)\<rparr>
                          else issueRequest);
          issueRequest = (if upd_Body input \<noteq> []
                          then issueRequest\<lparr>req_Body := Some (upd_Body input)\<rparr>
                          else issueRequest);
          issueRequest = (if upd_Labels input \<noteq> None
                          then issueRequest\<lparr>req_Labels := Some (upd_Labels input)\<rparr>
                          else issueRequest)
      in issueRequest)"

text \<open>
  \<open>edit\<close> is \<^verbatim>\<open>client.Issues.Edit\<close> of the go-github library, called with the client
  made from the token; \<open>'g\<close> is the state of the remote service.
\<close>

definition GitHubProvider_Update ::
  "(string \<Rightarrow> string \<Rightarrow> string \<Rightarrow> go_int \<Rightarrow> IssueRequest \<Rightarrow> 'g \<Rightarrow> (error + github_Issue) \<times> 'g)
     \<Rightarrow> string \<Rightarrow> string \<Rightarrow> go_int \<Rightarrow> UpdateIssueInput \<Rightarrow> 'g \<Rightarrow> (error + Issue) \<times> 'g"
where
  "GitHubProvider_Update edit token repoStr issueNumber input g =
     (case parseRepo repoStr of
        Inl err \<Rightarrow> (Inl err, g)
      | Inr (owner, repo) \<Rightarrow>
          (case edit token owner repo issueNumber (Update_request input) g of
             (Inl err, g') \<Rightarrow> (Inl (Failure ''failed to update GitHub issue''), g')
           | (Inr ghIssue, g') \<Rightarrow>
               (Inr \<lparr>Number = GetNumber ghIssue,
                     URL = GetString (gh_HTMLURL ghIssue),
                     State = GetString (gh_State ghIssue),
                     Title = GetString (gh_Title ghIssue),
                     Body = GetString (gh_Body ghIssue),
                     Labels = Some (extractLabels (gh_Labels ghIssue))\<rparr>, g')))"

text \<open>
  The remote service is not part of the repository.  Its edit endpoint is taken by its
  published contract: the issue must exist; a field the request leaves out keeps its
  value; a field the request carries replaces the issue's, and a label list replaces the
  whole set of labels.
\<close>

type_synonym GitHub = "(string \<times> string \<times> go_int) \<rightharpoonup> github_Issue"

definition apply_request :: "IssueRequest \<Rightarrow> github_Issue \<Rightarrow> github_Issue" where
  "apply_request req i =
     i\<lparr>gh_Title := (case req_Title req of None \<Rightarrow> gh_Title i | Some t \<Rightarrow> Some t),
       gh_Body := (case req_Body req of None \<Rightarrow> gh_Body i | Some b \<Rightarrow> Some b),
       gh_Labels := (case req_Labels req of
                       None \<Rightarrow> gh_Labels i
                     | Some ls \<Rightarrow> map (\<lambda>name. \<lparr>label_Name = Some name\<rparr>) (elems ls)),
       gh_State := (case req_State req of None \<Rightarrow> gh_State i | Some s \<Rightarrow> Some s)\<rparr>"

definition Issues_Edit ::
  "string \<Rightarrow> string \<Rightarrow> string \<Rightarrow> go_int \<Rightarrow> IssueRequest \<Rightarrow> GitHub \<Rightarrow> (error + github_Issue) \<times> GitHub"
where
  "Issues_Edit token owner repo number req g =
     (case g (owner, repo, number) of
        None \<Rightarrow> (Inl (Failure ''404 Not Found''), g)
      | Some i \<Rightarrow> (Inr (apply_request req i), g((owner, repo, number) \<mapsto> apply_request req i)))"

section \<open>Package v1: the GitHubIssue resource\<close>

text \<open>
  Of \<^verbatim>\<open>metav1.ObjectMeta\<close> the reconciler reads and writes the name, the namespace, the
  deletion timestamp and the finalizers.  A timestamp is an instant counted from Go's zero
  time; \<^verbatim>\<open>IsZero\<close> holds of the nil pointer and of the zero instant.  The conditions are
  never read.  \<open>spec_\<close> and \<open>status_\<close> mark the fields whose names the issue model has
  taken.
\<close>

record GitHubIssueSpec =
  Repo :: string
  spec_Title :: string
  spec_Body :: string
  spec_Labels :: slice
  TokenSecretRef :: string

record GitHubIssueStatus =
  IssueNumber :: go_int
  IssueURL :: string
  status_State :: string
  Conditions :: "string list"

record GitHubIssue =
  Name :: string
  Namespace :: string
  DeletionTimestamp :: "int option"
  Finalizers :: "string list"
  Spec :: GitHubIssueSpec
  Status :: GitHubIssueStatus

definition IsZero :: "int option \<Rightarrow> bool" where
  "IsZero t = (case t of None \<Rightarrow> True | Some instant \<Rightarrow> instant = 0)"

record Secret =
  Data :: "string \<rightharpoonup> string"

record NamespacedName =
  nn_Namespace :: string
  nn_Name :: string

text \<open>The finalizer helpers of controller-runtime's \<^verbatim>\<open>controllerutil\<close>.\<close>

definition ContainsFinalizer :: "GitHubIssue \<Rightarrow> string \<Rightarrow> bool" where
  "ContainsFinalizer obj finalizer = (finalizer \<in> set (Finalizers obj))"

definition AddFinalizer :: "GitHubIssue \<Rightarrow> string \<Rightarrow> GitHubIssue" where
  "AddFinalizer obj finalizer =
     (if finalizer \<in> set (Finalizers obj) then obj
      else obj\<lparr>Finalizers := Finalizers obj @ [finalizer]\<rparr>)"

definition RemoveFinalizer :: "GitHubIssue \<Rightarrow> string \<Rightarrow> GitHubIssue" where
  "RemoveFinalizer obj finalizer =
     obj\<lparr>Finalizers := filter (\<lambda>f. f \<noteq> finalizer) (Finalizers obj)\<rparr>"

section \<open>Package controller: the reconciler\<close>

text \<open>
  \<^verbatim>\<open>ctrl.Result\<close>; a \<^verbatim>\<open>time.Duration\<close> counts nanoseconds.
\<close>

record Result =
  Requeue :: bool
  RequeueAfter :: int

definition Second :: int where
  "Second = 1000000000"

definition Minute :: int where
  "Minute = 60 * Second"

definition githubIssueFinalizer :: string where
  "githubIssueFinalizer = ''issues.github.example.com/cleanup''"

text \<open>
  The embedded \<^verbatim>\<open>client.Client\<close> is an interface as well: the four calls the reconciler
  makes, over the state \<open>'s\<close> of the cluster.  Reads leave the cluster as it is; a write
  returns the error or nil, and the cluster after it.  What a write stores back into the
  object passed to it is never read again: every write is followed by a return.
\<close>

record 's Client =
  client_Get :: "NamespacedName \<Rightarrow> 's \<Rightarrow> error + GitHubIssue"
  client_Get_Secret :: "NamespacedName \<Rightarrow> 's \<Rightarrow> error + Secret"
  client_Update :: "GitHubIssue \<Rightarrow> 's \<Rightarrow> error option \<times> 's"
  client_Status_Update :: "GitHubIssue \<Rightarrow> 's \<Rightarrow> error option \<times> 's"

text \<open>
  One reconciliation runs against the cluster and the remote system, and leaves a trace:
  every call to the provider and every write to the cluster, in the order made.
\<close>

datatype call =
    Call_Create string CreateIssueInput
  | Call_Get string string go_int
  | Call_Update string string go_int UpdateIssueInput
  | Call_Close string string go_int
  | Call_Reopen string string go_int
  | Write_Update GitHubIssue
  | Write_Status_Update GitHubIssue

record ('s, 'p) world =
  cluster :: 's
  remote :: 'p
  trace :: "call list"

definition call_Create ::
  "'p IssueProvider \<Rightarrow> string \<Rightarrow> CreateIssueInput \<Rightarrow> ('s, 'p) world
     \<Rightarrow> (error + Issue) \<times> ('s, 'p) world"
where
  "call_Create ip token input w =
     (case Create ip token input (remote w) of
        (res, p) \<Rightarrow> (res, w\<lparr>remote := p, trace := trace w @ [Call_Create token input]\<rparr>))"

definition call_Get ::
  "'p IssueProvider \<Rightarrow> string \<Rightarrow> string \<Rightarrow> go_int \<Rightarrow> ('s, 'p) world
     \<Rightarrow> (error + Issue) \<times> ('s, 'p) world"
where
  "call_Get ip token repo n w =
     (case Get ip token repo n (remote w) of
        (res, p) \<Rightarrow> (res, w\<lparr>remote := p, trace := trace w @ [Call_Get token repo n]\<rparr>))"

definition call_Update ::
  "'p IssueProvider \<Rightarrow> string \<Rightarrow> string \<Rightarrow> go_int \<Rightarrow> UpdateIssueInput \<Rightarrow> ('s, 'p) world
     \<Rightarrow> (error + Issue) \<times> ('s, 'p) world"
where
  "call_Update ip token repo n input w =
     (case Update ip token repo n input (remote w) of
        (res, p) \<Rightarrow> (res, w\<lparr>remote := p, trace := trace w @ [Call_Update token repo n input]\<rparr>))"

definition call_Close ::
  "'p IssueProvider \<Rightarrow> string \<Rightarrow> string \<Rightarrow> go_int \<Rightarrow> ('s, 'p) world
     \<Rightarrow> error option \<times> ('s, 'p) world"
where
  "call_Close ip token repo n w =
     (case Close ip token repo n (remote w) of
        (err, p) \<Rightarrow> (err, w\<lparr>remote := p, trace := trace w @ [Call_Close token repo n]\<rparr>))"

definition call_Reopen ::
  "'p IssueProvider \<Rightarrow> string \<Rightarrow> string \<Rightarrow> go_int \<Rightarrow> ('s, 'p) world
     \<Rightarrow> error option \<times> ('s, 'p) world"
where
  "call_Reopen ip token repo n w =
     (case Reopen ip token repo n (remote w) of
        (err, p) \<Rightarrow> (err, w\<lparr>remote := p, trace := trace w @ [Call_Reopen token repo n]\<rparr>))"

definition write_Update ::
  "'s Client \<Rightarrow> GitHubIssue \<Rightarrow> ('s, 'p) world \<Rightarrow> error option \<times> ('s, 'p) world"
where
  "write_Update r issue w =
     (case client_Update r issue (cluster w) of
        (err, s) \<Rightarrow> (err, w\<lparr>cluster := s, trace := trace w @ [Write_Update issue]\<rparr>))"

definition write_Status_Update ::
  "'s Client \<Rightarrow> GitHubIssue \<Rightarrow> ('s, 'p) world \<Rightarrow> error option \<times> ('s, 'p) world"
where
  "write_Status_Update r issue w =
     (case client_Status_Update r issue (cluster w) of
        (err, s) \<Rightarrow> (err, w\<lparr>cluster := s, trace := trace w @ [Write_Status_Update issue]\<rparr>))"

definition no_requeue :: Result where
  "no_requeue = \<lparr>Requeue = False, RequeueAfter = 0\<rparr>"

definition requeue_now :: Result where
  "requeue_now = \<lparr>Requeue = True, RequeueAfter = 0\<rparr>"

definition requeue_after :: "int \<Rightarrow> Result" where
  "requeue_after d = \<lparr>Requeue = False, RequeueAfter = d\<rparr>"

text \<open>
  \<^verbatim>\<open>Reconcile\<close> is one function in the source; its numbered steps 3 to 6 are the
  functions below, each from the point where the step is entered to the return.
\<close>

definition Reconcile_deletion ::
  "'s Client \<Rightarrow> 'p IssueProvider \<Rightarrow> string \<Rightarrow> GitHubIssue \<Rightarrow> ('s, 'p) world
     \<Rightarrow> (Result \<times> error option) \<times> ('s, 'p) world"
where
  "Reconcile_deletion r ip token issue w =
     (if ContainsFinalizer issue githubIssueFinalizer then
        (case (if 0 <s IssueNumber (Status issue)
               then call_Close ip token (Repo (Spec issue)) (IssueNumber (Status issue)) w
               else (None, w)) of
           (Some err, w1) \<Rightarrow> ((requeue_after (30 * Second), None), w1)
         | (None, w1) \<Rightarrow>
             (case write_Update r (RemoveFinalizer issue githubIssueFinalizer) w1 of
                (Some err, w2) \<Rightarrow> ((no_requeue, Some err), w2)
              | (None, w2) \<Rightarrow> ((no_requeue, None), w2)))
      else ((no_requeue, None), w))"

definition Reconcile_finalizer ::
  "'s Client \<Rightarrow> GitHubIssue \<Rightarrow> ('s, 'p) world \<Rightarrow> (Result \<times> error option) \<times> ('s, 'p) world"
where
  "Reconcile_finalizer r issue w =
     (case write_Update r (AddFinalizer issue githubIssueFinalizer) w of
        (Some err, w1) \<Rightarrow> ((no_requeue, Some err), w1)
      | (None, w1) \<Rightarrow> ((requeue_now, None), w1))"

definition Reconcile_create ::
  "'s Client \<Rightarrow> 'p IssueProvider \<Rightarrow> string \<Rightarrow> GitHubIssue \<Rightarrow> ('s, 'p) world
     \<Rightarrow> (Result \<times> error option) \<times> ('s, 'p) world"
where
  "Reconcile_create r ip token issue w =
     (case call_Create ip token
             \<lparr>in_Repo = Repo (Spec issue), in_Title = spec_Title (Spec issue),
              in_Body = spec_Body (Spec issue), in_Labels = spec_Labels (Spec issue)\<rparr> w of
        (Inl err, w1) \<Rightarrow> ((no_requeue, Some err), w1)
      | (Inr createdIssue, w1) \<Rightarrow>
          (case write_Status_Update r
                  (issue\<lparr>Status := (Status issue)\<lparr>IssueNumber := Number createdIssue,
                                                  IssueURL := URL createdIssue,
                                                  status_State := State createdIssue\<rparr>\<rparr>) w1 of
             (Some err, w2) \<Rightarrow> ((no_requeue, Some err), w2)
           | (None, w2) \<Rightarrow> ((requeue_after (5 * Minute), None), w2)))"

text \<open>
  Step 6 has three blocks after the fetch of the remote issue: reopen it if it was closed,
  push the spec if it has drifted, and bring the recorded state in line.  The first two
  end the attempt with the requeue after 30 seconds when their call fails (\<open>Inl\<close>).
\<close>

definition sync_reopen ::
  "'p IssueProvider \<Rightarrow> string \<Rightarrow> GitHubIssue \<Rightarrow> Issue \<Rightarrow> ('s, 'p) world
     \<Rightarrow> ('s, 'p) world + Issue \<times> ('s, 'p) world"
where
  "sync_reopen ip token issue currentIssue w =
     (if State currentIssue = ''closed''
      then (case call_Reopen ip token (Repo (Spec issue)) (IssueNumber (Status issue)) w of
              (Some err, w') \<Rightarrow> Inl w'
            | (None, w') \<Rightarrow> Inr (currentIssue\<lparr>State := ''open''\<rparr>, w'))
      else Inr (currentIssue, w))"

definition sync_push ::
  "'p IssueProvider \<Rightarrow> string \<Rightarrow> GitHubIssue \<Rightarrow> Issue \<Rightarrow> ('s, 'p) world
     \<Rightarrow> ('s, 'p) world + ('s, 'p) world"
where
  "sync_push ip token issue currentIssue w =
     (if Title currentIssue \<noteq> spec_Title (Spec issue)
         \<or> Body currentIssue \<noteq> spec_Body (Spec issue)
         \<or> \<not> labelsMatch (Labels currentIssue) (spec_Labels (Spec issue))
      then (case call_Update ip token (Repo (Spec issue)) (IssueNumber (Status issue))
                   \<lparr>upd_Title = spec_Title (Spec issue),
                    upd_Body = spec_Body (Spec issue),
                    upd_Labels = spec_Labels (Spec issue)\<rparr> w of
              (Inl err, w') \<Rightarrow> Inl w'
            | (Inr updated, w') \<Rightarrow> Inr w')
      else Inr w)"

definition sync_status ::
  "'s Client \<Rightarrow> GitHubIssue \<Rightarrow> Issue \<Rightarrow> ('s, 'p) world
     \<Rightarrow> (Result \<times> error option) \<times> ('s, 'p) world"
where
  "sync_status r issue currentIssue w =
     (if status_State (Status issue) \<noteq> State currentIssue then
        (case write_Status_Update r
                (issue\<lparr>Status := (Status issue)\<lparr>status_State := State currentIssue\<rparr>\<rparr>) w of
           (Some err, w') \<Rightarrow> ((no_requeue, Some err), w')
         | (None, w') \<Rightarrow> ((requeue_after (5 * Minute), None), w'))
      else ((requeue_after (5 * Minute), None), w))"

definition Reconcile_sync ::
  "'s Client \<Rightarrow> 'p IssueProvider \<Rightarrow> string \<Rightarrow> GitHubIssue \<Rightarrow> ('s, 'p) world
     \<Rightarrow> (Result \<times> error option) \<times> ('s, 'p) world"
where
  "Reconcile_sync r ip token issue w =
     (case call_Get ip token (Repo (Spec issue)) (IssueNumber (Status issue)) w of
        (Inl err, w1) \<Rightarrow> ((no_requeue, Some err), w1)
      | (Inr fetched, w1) \<Rightarrow>
          (case sync_reopen ip token issue fetched w1 of
             Inl w2 \<Rightarrow> ((requeue_after (30 * Second), None), w2)
           | Inr (currentIssue, w2) \<Rightarrow>
               (case sync_push ip token issue currentIssue w2 of
                  Inl w3 \<Rightarrow> ((requeue_after (30 * Second), None), w3)
                | Inr w3 \<Rightarrow> sync_status r issue currentIssue w3)))"

definition Reconcile ::
  "'s Client \<Rightarrow> 'p IssueProvider \<Rightarrow> NamespacedName \<Rightarrow> ('s, 'p) world
     \<Rightarrow> (Result \<times> error option) \<times> ('s, 'p) world"
where
  "Reconcile r ip req w =
     (case client_Get r req (cluster w) of
        Inl err \<Rightarrow>
          (if IsNotFound err then ((no_requeue, None), w)
           else ((no_requeue, Some err), w))
      | Inr issue \<Rightarrow>
          (case client_Get_Secret r
                  \<lparr>nn_Namespace = Namespace issue, nn_Name = TokenSecretRef (Spec issue)\<rparr>
                  (cluster w) of
             Inl err \<Rightarrow> ((no_requeue, Some err), w)
           | Inr secret \<Rightarrow>
               (case Data secret ''token'' of
                  None \<Rightarrow> ((requeue_after (30 * Second), None), w)
                | Some tokenBytes \<Rightarrow>
                    (let token = tokenBytes in
                     if \<not> IsZero (DeletionTimestamp issue)
                     then Reconcile_deletion r ip token issue w
                     else if \<not> ContainsFinalizer issue githubIssueFinalizer
                     then Reconcile_finalizer r issue w
                     else if IssueNumber (Status issue) = 0
                     then Reconcile_create r ip token issue w
                     else Reconcile_sync r ip token issue w))))"

text \<open>
  An in-memory cluster on which the reconciler can be run.  The API server is outside the
  repository; this one follows what the tests set up on the fake client: the status is a
  sub-resource, so \<^verbatim>\<open>Update\<close> keeps the stored status and \<^verbatim>\<open>Status().Update\<close> stores
  nothing else, and an object under deletion is gone once its last finalizer is removed.
\<close>

record FakeCluster =
  objects :: "NamespacedName \<rightharpoonup> GitHubIssue"
  secrets :: "NamespacedName \<rightharpoonup> Secret"

definition key_of :: "GitHubIssue \<Rightarrow> NamespacedName" where
  "key_of issue = \<lparr>nn_Namespace = Namespace issue, nn_Name = Name issue\<rparr>"

definition fake_Get :: "NamespacedName \<Rightarrow> FakeCluster \<Rightarrow> error + GitHubIssue" where
  "fake_Get key s =
     (case objects s key of
        None \<Rightarrow> Inl (NotFound (nn_Name key))
      | Some issue \<Rightarrow> Inr issue)"

definition fake_Get_Secret :: "NamespacedName \<Rightarrow> FakeCluster \<Rightarrow> error + Secret" where
  "fake_Get_Secret key s =
     (case secrets s key of
        None \<Rightarrow> Inl (NotFound (nn_Name key))
      | Some secret \<Rightarrow> Inr secret)"

definition fake_Update :: "GitHubIssue \<Rightarrow> FakeCluster \<Rightarrow> error option \<times> FakeCluster" where
  "fake_Update issue s =
     (case objects s (key_of issue) of
        None \<Rightarrow> (Some (NotFound (Name issue)), s)
      | Some stored \<Rightarrow>
          (let new = issue\<lparr>Status := Status stored\<rparr> in
           if \<not> IsZero (DeletionTimestamp new) \<and> Finalizers new = []
           then (None, s\<lparr>objects := (objects s)(key_of issue := None)\<rparr>)
           else (None, s\<lparr>objects := (objects s)(key_of issue \<mapsto> new)\<rparr>)))"

definition fake_Status_Update :: "GitHubIssue \<Rightarrow> FakeCluster \<Rightarrow> error option \<times> FakeCluster" where
  "fake_Status_Update issue s =
     (case objects s (key_of issue) of
        None \<Rightarrow> (Some (NotFound (Name issue)), s)
      | Some stored \<Rightarrow>
          (None, s\<lparr>objects := (objects s)(key_of issue \<mapsto> stored\<lparr>Status := Status issue\<rparr>)\<rparr>))"

definition fake_client :: "FakeCluster Client" where
  "fake_client =
     \<lparr>client_Get = fake_Get, client_Get_Secret = fake_Get_Secret,
      client_Update = fake_Update, client_Status_Update = fake_Status_Update\<rparr>"

text \<open>The calls of a trace that went to the provider, and the objects it wrote.\<close>

fun is_remote_call :: "call \<Rightarrow> bool" where
  "is_remote_call (Write_Update issue) = False"
| "is_remote_call (Write_Status_Update issue) = False"
| "is_remote_call c = True"

definition remote_calls :: "call list \<Rightarrow> call list" where
  "remote_calls t = filter is_remote_call t"

fun written :: "call list \<Rightarrow> GitHubIssue list" where
  "written [] = []"
| "written (Write_Update issue # t) = issue # written t"
| "written (Write_Status_Update issue # t) = issue # written t"
| "written (c # t) = written t"

text \<open>The objects written from one world to a later one.\<close>

definition new_writes :: "('s, 'p) world \<Rightarrow> ('s, 'p) world \<Rightarrow> GitHubIssue list" where
  "new_writes w w' = written (drop (length (trace w)) (trace w'))"

text \<open>
  The writes of a trace, made again in their order on a cluster; and the relation of a
  world to a later one whose trace continues the earlier trace and whose cluster is the
  earlier cluster after the writes made in between.
\<close>

fun replay :: "'s Client \<Rightarrow> call list \<Rightarrow> 's \<Rightarrow> 's" where
  "replay r [] s = s"
| "replay r (Write_Update issue # t) s = replay r t (snd (client_Update r issue s))"
| "replay r (Write_Status_Update issue # t) s = replay r t (snd (client_Status_Update r issue s))"
| "replay r (c # t) s = replay r t s"

definition logged :: "'s Client \<Rightarrow> ('s, 'p) world \<Rightarrow> ('s, 'p) world \<Rightarrow> bool" where
  "logged r w w' =
     (take (length (trace w)) (trace w') = trace w
      \<and> cluster w' = replay r (drop (length (trace w)) (trace w')) (cluster w))"

definition create_input :: "GitHubIssue \<Rightarrow> CreateIssueInput" where
  "create_input issue =
     \<lparr>in_Repo = Repo (Spec issue), in_Title = spec_Title (Spec issue),
      in_Body = spec_Body (Spec issue), in_Labels = spec_Labels (Spec issue)\<rparr>"

definition secret_key :: "GitHubIssue \<Rightarrow> NamespacedName" where
  "secret_key issue = \<lparr>nn_Namespace = Namespace issue, nn_Name = TokenSecretRef (Spec issue)\<rparr>"

text \<open>The in-memory cluster holds no object under the key, or one with the issue number.\<close>

definition keeps :: "go_int \<Rightarrow> NamespacedName \<Rightarrow> FakeCluster \<Rightarrow> bool" where
  "keeps n req s =
     (case objects s req of
        None \<Rightarrow> True
      | Some stored \<Rightarrow> IssueNumber (Status stored) = n)"

subsection \<open>The objects of the controller's test suite\<close>

text \<open>
  What \<^verbatim>\<open>BeforeEach\<close> and \<^verbatim>\<open>createGitHubIssue\<close> set up: the secret with its token,
  the issue as created, the request for it, a fresh mock; and the issue and the mock as
  the first two reconciliations leave them.
\<close>

definition namespacedName :: NamespacedName where
  "namespacedName = \<lparr>nn_Namespace = ''default'', nn_Name = ''test-issue''\<rparr>"

definition test_secret :: Secret where
  "test_secret = \<lparr>Data = [''token'' \<mapsto> ''fake-token'']\<rparr>"

definition test_issue :: GitHubIssue where
  "test_issue =
     \<lparr>Name = ''test-issue'', Namespace = ''default'', DeletionTimestamp = None,
      Finalizers = [],
      Spec = \<lparr>Repo = ''owner/repo'', spec_Title = ''Test Issue'',
              spec_Body = ''This is a test issue'', spec_Labels = Some [''bug''],
              TokenSecretRef = ''github-token''\<rparr>,
      Status = \<lparr>IssueNumber = 0, IssueURL = [], status_State = [], Conditions = []\<rparr>\<rparr>"

definition synced_issue :: GitHubIssue where
  "synced_issue =
     test_issue\<lparr>Finalizers := [githubIssueFinalizer],
                Status := \<lparr>IssueNumber = 1,
                           IssueURL = ''https://github.com/owner/repo/issues/1'',
                           status_State = ''open'', Conditions = []\<rparr>\<rparr>"

definition mock_with_issue :: MockProvider where
  "mock_with_issue = snd (MockProvider_Create ''fake-token'' (create_input test_issue) NewMockProvider)"

definition test_cluster :: "GitHubIssue \<Rightarrow> Secret \<Rightarrow> FakeCluster" where
  "test_cluster issue secret =
     \<lparr>objects = [namespacedName \<mapsto> issue],
      secrets = [\<lparr>nn_Namespace = ''default'', nn_Name = ''github-token''\<rparr> \<mapsto> secret]\<rparr>"

definition test_world :: "GitHubIssue \<Rightarrow> Secret \<Rightarrow> (FakeCluster, MockProvider) world" where
  "test_world issue secret =
     \<lparr>cluster = test_cluster issue secret, remote = NewMockProvider, trace = []\<rparr>"

section \<open>Program main: the namespace labeller\<close>

subsection \<open>The reconcile function\<close>

text \<open>
  Of a \<^verbatim>\<open>corev1.Namespace\<close> the function reads the name and the labels; reading a key of
  a nil map finds nothing, as in an empty one.  The lister answers from the informer's
  cache.  \<open>Patch\<close> is the \<^verbatim>\<open>Patch\<close> method of the clientset's namespace interface, over
  the state \<open>'c\<close> behind the clientset; the calls made are recorded beside the result.
\<close>

record corev1_Namespace =
  ns_Name :: string
  ns_Labels :: "string \<rightharpoonup> string"

datatype PatchType = JSONPatchType | MergePatchType | StrategicMergePatchType | ApplyPatchType

datatype patch_call = Patch_call string PatchType string

definition patch :: string where
  \<open>patch = ''{"metadata":{"labels":{"team":"unassigned"}}}''\<close>

definition reconcile ::
  "(string \<Rightarrow> PatchType \<Rightarrow> string \<Rightarrow> 'c \<Rightarrow> error option \<times> 'c)
     \<Rightarrow> (string \<Rightarrow> error + corev1_Namespace) \<Rightarrow> string \<Rightarrow> 'c
     \<Rightarrow> (error option \<times> patch_call list) \<times> 'c"
where
  "reconcile Patch lister key c =
     (case lister key of
        Inl err \<Rightarrow> ((Some err, []), c)
      | Inr ns \<Rightarrow>
          if ns_Name ns = ''kube-system'' \<or> ns_Name ns = ''kube-public''
             \<or> ns_Name ns = ''kube-node-lease'' \<or> ns_Name ns = ''default''
          then ((None, []), c)
          else if ns_Labels ns ''team'' \<noteq> None
          then ((None, []), c)
          else (case Patch (ns_Name ns) MergePatchType patch c of
                  (err, c') \<Rightarrow> ((err, [Patch_call (ns_Name ns) MergePatchType patch]), c')))"

subsection \<open>The worker loop\<close>

text \<open>
  The loop of \<^verbatim>\<open>main\<close> talks to the work queue, which is outside the repository.  The
  answers of the successive \<^verbatim>\<open>queue.Get()\<close> calls are given as a list of pairs
  \<open>(key, shutdown)\<close>; when the list is used up the next \<^verbatim>\<open>Get\<close> blocks.  The call of
  \<^verbatim>\<open>reconcile\<close> either returns its error value or panics; a panic leaves the loop and
  the program, since nothing in \<^verbatim>\<open>main\<close> defers a call or recovers.
  The loop's result is the list of queue calls it made and how it ended.
\<close>

datatype 'a outcome = Returns 'a | Panics

datatype queue_call =
    Queue_Get
  | Queue_AddRateLimited string
  | Queue_Forget string
  | Queue_Done string

datatype ending = Shut_down | Panicked | Blocked

fun worker ::
  "(string \<Rightarrow> 'c \<Rightarrow> error option outcome \<times> 'c) \<Rightarrow> (string \<times> bool) list \<Rightarrow> 'c
     \<Rightarrow> (queue_call list \<times> ending) \<times> 'c"
where
  "worker rc [] c = (([Queue_Get], Blocked), c)"
| "worker rc ((key, shutdown) # answers) c =
     (if shutdown then (([Queue_Get], Shut_down), c)
      else (case rc key c of
              (Panics, c') \<Rightarrow> (([Queue_Get], Panicked), c')
            | (Returns err, c') \<Rightarrow>
                (case worker rc answers c' of
                   ((calls, e), c'') \<Rightarrow>
                     ((Queue_Get
                        # (if err \<noteq> None then Queue_AddRateLimited key else Queue_Forget key)
                        # Queue_Done key # calls, e), c''))))"

subsection \<open>JSON documents and the merge patch\<close>

text \<open>
  The patch is sent as \<^verbatim>\<open>types.MergePatchType\<close>.  What the API server does with it is
  outside the repository; it is the JSON merge patch of RFC 7386, given here on JSON
  documents whose objects are lists of fields, read by the first field of a name.
  A number is kept as its text.
\<close>

datatype json =
    JNull
  | JBool bool
  | JNumber string
  | JString string
  | JArray "json list"
  | JObject "(string \<times> json) list"

fun object_fields :: "json \<Rightarrow> (string \<times> json) list" where
  "object_fields (JObject fs) = fs"
| "object_fields _ = []"

fun object_member :: "json \<Rightarrow> string \<Rightarrow> json" where
  "object_member (JObject fs) k = (case map_of fs k of None \<Rightarrow> JNull | Some v \<Rightarrow> v)"
| "object_member _ k = JNull"

fun merge_patch :: "json \<Rightarrow> json \<Rightarrow> json"
  and merge_fields :: "(string \<times> json) list \<Rightarrow> (string \<times> json) list \<Rightarrow> (string \<times> json) list"
where
  "merge_patch target (JObject ps) = JObject (merge_fields (object_fields target) ps)"
| "merge_patch target JNull = JNull"
| "merge_patch target (JBool b) = JBool b"
| "merge_patch target (JNumber n) = JNumber n"
| "merge_patch target (JString s) = JString s"
| "merge_patch target (JArray xs) = JArray xs"
| "merge_fields ts [] = ts"
| "merge_fields ts ((k, v) # ps) =
     merge_fields
       (if v = JNull then AList.delete k ts
        else AList.update k (merge_patch (object_member (JObject ts) k) v) ts)
       ps"

fun jget :: "json \<Rightarrow> string list \<Rightarrow> json option" where
  "jget j [] = Some j"
| "jget (JObject fs) (k # ks) = (case map_of fs k of None \<Rightarrow> None | Some v \<Rightarrow> jget v ks)"
| "jget _ (k # ks) = None"

text \<open>
  The text of a document without white space, as the literal in the source is written;
  strings are taken free of characters that need escaping.
\<close>

fun render :: "json \<Rightarrow> string"
  and render_fields :: "(string \<times> json) list \<Rightarrow> string"
  and render_items :: "json list \<Rightarrow> string"
where
  "render JNull = ''null''"
| "render (JBool b) = (if b then ''true'' else ''false'')"
| "render (JNumber n) = n"
| "render (JString s) = [CHR 0x22] @ s @ [CHR 0x22]"
| "render (JArray xs) = ''['' @ render_items xs @ '']''"
| "render (JObject fs) = ''{'' @ render_fields fs @ ''}''"
| "render_fields [] = []"
| "render_fields ((k, v) # fs) =
     [CHR 0x22] @ k @ [CHR 0x22] @ '':'' @ render v
     @ (if fs = [] then [] else '','' @ render_fields fs)"
| "render_items [] = []"
| "render_items (x # xs) = render x @ (if xs = [] then [] else '','' @ render_items xs)"

definition patch_document :: json where
  "patch_document =
     JObject [(''metadata'', JObject [(''labels'', JObject [(''team'', JString ''unassigned'')])])]"

definition team_path :: "string list" where
  "team_path = [''metadata'', ''labels'', ''team'']"

section \<open>Properties of labelsMatch\<close>

lemma elems_sort_Strings: "elems (sort_Strings s) = sort (elems s)"
  by (cases s) (simp_all add: elems_def sort_Strings_def)

lemma sort_eq_iff_mset_eq:
  fixes xs ys :: "string list"
  shows "sort xs = sort ys \<longleftrightarrow> mset xs = mset ys"
proof
  assume "sort xs = sort ys"
  then have "mset (sort xs) = mset (sort ys)" by simp
  then show "mset xs = mset ys" by simp
next
  assume "mset xs = mset ys"
  then show "sort xs = sort ys"
    by (intro properties_for_sort) simp_all
qed

lemma labelsMatch_iff_mset: "labelsMatch a b \<longleftrightarrow> mset (elems a) = mset (elems b)"
proof (cases "len a = len b")
  case True
  then have "labelsMatch a b \<longleftrightarrow> sort (elems a) = sort (elems b)"
    by (simp add: labelsMatch_def slices_Clone_def slices_Equal_def len_def
        elems_sort_Strings)
  then show ?thesis
    by (simp add: sort_eq_iff_mset_eq)
next
  case False
  then have "mset (elems a) \<noteq> mset (elems b)"
    by (auto simp: len_def dest: mset_eq_length)
  with False show ?thesis
    by (simp add: labelsMatch_def)
qed

text \<open>
  C4 (as stated, refuted).  The claim reads: labelsMatch returns true if and only if the
  two lists denote equal sets of labels, so that lists with duplicated elements compare
  by set membership.  The lists \<open>[bug, bug]\<close> and \<open>[bug]\<close> denote the same set, and
  labelsMatch returns false on them: the length guard rejects them.
\<close>

theorem labelsMatch_set_counterexample:
  "\<not> (labelsMatch (Some [''bug'', ''bug'']) (Some [''bug''])
        \<longleftrightarrow> set (elems (Some [''bug'', ''bug''])) = set (elems (Some [''bug''])))"
  by (simp add: labelsMatch_def len_def elems_def)

text \<open>
  C4 (amended).  For every pair of label lists \<open>a\<close> and \<open>b\<close>, labelsMatch returns true
  if and only if \<open>a\<close> and \<open>b\<close> hold the same labels with the same multiplicities
  (equal multisets); hence it is independent of element order, symmetric, and invariant
  under permutation of either argument, and a nil list matches an empty one.
\<close>

theorem labelsMatch_multiset:
  "(labelsMatch a b \<longleftrightarrow> mset (elems a) = mset (elems b))
   \<and> (labelsMatch a b \<longleftrightarrow> labelsMatch b a)
   \<and> (mset xs = mset xs' \<longrightarrow> labelsMatch (Some xs) b = labelsMatch (Some xs') b)
   \<and> (mset ys = mset ys' \<longrightarrow> labelsMatch a (Some ys) = labelsMatch a (Some ys'))
   \<and> labelsMatch None (Some [])"
  by (auto simp: labelsMatch_iff_mset elems_def)

theorem labelsMatch_multiset_witness:
  "mset [''ui'', ''bug''] = mset [''bug'', ''ui'']
   \<and> labelsMatch (Some [''ui'', ''bug'']) (Some [''bug'', ''ui''])
   \<and> labelsMatch (Some [''bug'', ''ui'']) (Some [''ui'', ''bug''])"
proof -
  note t = labelsMatch_multiset [of "Some [''ui'', ''bug'']" "Some [''bug'', ''ui'']"
      "[''ui'', ''bug'']" "[''bug'', ''ui'']" "[''bug'', ''ui'']" "[''ui'', ''bug'']"]
  have p: "mset [''ui'', ''bug''] = mset [''bug'', ''ui'']"
    by simp
  from t have a: "labelsMatch (Some [''ui'', ''bug'']) (Some [''bug'', ''ui''])"
    by (simp add: elems_def)
  from t a have b: "labelsMatch (Some [''bug'', ''ui'']) (Some [''ui'', ''bug''])"
    by blast
  from p a b show ?thesis
    by blast
qed

section \<open>Properties of the mock provider\<close>

lemma itoa_1: "itoa 1 = ''1''"
  by (simp add: itoa_def digits.simps)

lemma counters_Create:
  "counters (snd (MockProvider_Create token input m))
     = (CreateCalled m + 1, GetCalled m, UpdateCalled m, CloseCalled m)"
  by (simp add: counters_def MockProvider_Create_def Let_def split: option.splits)

lemma counters_Get:
  "counters (snd (MockProvider_Get token repo n m))
     = (CreateCalled m, GetCalled m + 1, UpdateCalled m, CloseCalled m)"
  by (simp add: counters_def MockProvider_Get_def Let_def split: option.splits)

lemma counters_Update:
  "counters (snd (MockProvider_Update token repo n input m))
     = (CreateCalled m, GetCalled m, UpdateCalled m + 1, CloseCalled m)"
  by (simp add: counters_def MockProvider_Update_def Let_def split: option.splits)

lemma counters_Close:
  "counters (snd (MockProvider_Close token repo n m))
     = (CreateCalled m, GetCalled m, UpdateCalled m, CloseCalled m + 1)"
  by (simp add: counters_def MockProvider_Close_def Let_def split: option.splits)

lemma counters_Reopen:
  "counters (snd (MockProvider_Reopen token repo n m)) = counters m"
  by (simp add: counters_def MockProvider_Reopen_def Let_def split: option.splits)

lemma stats_Reopen:
  "stats (snd (MockProvider_Reopen token repo n m)) = stats m"
proof (cases "issues m (issueKey repo n)")
  case None
  then show ?thesis
    by (simp add: MockProvider_Reopen_def)
next
  case (Some issue)
  then have "insert (issueKey repo n) (dom (issues m)) = dom (issues m)"
    by (auto simp: domI)
  with Some show ?thesis
    by (simp add: stats_def MockProvider_Reopen_def)
qed

lemma stats_lookup:
  "stats m ''createCalled'' = Some (CreateCalled m)"
  "stats m ''getCalled'' = Some (GetCalled m)"
  "stats m ''updateCalled'' = Some (UpdateCalled m)"
  "stats m ''closeCalled'' = Some (CloseCalled m)"
  by (simp_all add: stats_def)

lemma dom_stats:
  "dom (stats m)
     = {''createCalled'', ''getCalled'', ''updateCalled'', ''closeCalled'', ''totalIssues''}"
  by (auto simp: stats_def split: if_splits)

text \<open>
  C9 (as stated, refuted).  The claim reads: the fake tracks a call count for each of the
  five operations, and after \<open>n\<close> Reopen calls the counters snapshot reflects \<open>n\<close>
  reopen calls.  On a fresh mock holding the one issue the tests create, two Reopen calls
  succeed, and the snapshot after them is the map below: it has no entry for reopen, and
  no entry of it is 2.
\<close>

theorem stats_Reopen_counterexample:
  "fst (MockProvider_Reopen ''fake-token'' ''owner/repo'' 1
          (snd (MockProvider_Create ''fake-token''
                  \<lparr>in_Repo = ''owner/repo'', in_Title = ''Test Issue'',
                   in_Body = ''This is a test issue'', in_Labels = Some [''bug'']\<rparr>
                  NewMockProvider))) = None
   \<and> fst (MockProvider_Reopen ''fake-token'' ''owner/repo'' 1
          (snd (MockProvider_Reopen ''fake-token'' ''owner/repo'' 1
             (snd (MockProvider_Create ''fake-token''
                     \<lparr>in_Repo = ''owner/repo'', in_Title = ''Test Issue'',
                      in_Body = ''This is a test issue'', in_Labels = Some [''bug'']\<rparr>
                     NewMockProvider))))) = None
   \<and> stats (snd (MockProvider_Reopen ''fake-token'' ''owner/repo'' 1
          (snd (MockProvider_Reopen ''fake-token'' ''owner/repo'' 1
             (snd (MockProvider_Create ''fake-token''
                     \<lparr>in_Repo = ''owner/repo'', in_Title = ''Test Issue'',
                      in_Body = ''This is a test issue'', in_Labels = Some [''bug'']\<rparr>
                     NewMockProvider))))))
       = map_of [(''createCalled'', 1), (''getCalled'', 0), (''updateCalled'', 0),
                 (''closeCalled'', 0), (''totalIssues'', 1)]"
  by (simp add: MockProvider_Create_def NewMockProvider_def MockProvider_Reopen_def Let_def
      issueKey_def itoa_1 stats_def)

text \<open>
  C9 (amended).  The in-memory fake tracks a call count for four of the five remote
  operations: every Create, Get, Update and Close call adds one to its own counter and
  leaves the other three as they are, whether or not an override is installed and whether
  or not the call succeeds.  A Reopen call changes no counter and leaves the snapshot as
  it is.  The counters snapshot reports these four counts under the keys createCalled,
  getCalled, updateCalled and closeCalled, and beside them only totalIssues.
\<close>

theorem MockProvider_call_counts:
  "counters (snd (MockProvider_Create token input m))
     = (CreateCalled m + 1, GetCalled m, UpdateCalled m, CloseCalled m)
   \<and> counters (snd (MockProvider_Get token repo n m))
     = (CreateCalled m, GetCalled m + 1, UpdateCalled m, CloseCalled m)
   \<and> counters (snd (MockProvider_Update token repo n upd m))
     = (CreateCalled m, GetCalled m, UpdateCalled m + 1, CloseCalled m)
   \<and> counters (snd (MockProvider_Close token repo n m))
     = (CreateCalled m, GetCalled m, UpdateCalled m, CloseCalled m + 1)
   \<and> counters (snd (MockProvider_Reopen token repo n m)) = counters m
   \<and> stats (snd (MockProvider_Reopen token repo n m)) = stats m
   \<and> stats m ''createCalled'' = Some (CreateCalled m)
   \<and> stats m ''getCalled'' = Some (GetCalled m)
   \<and> stats m ''updateCalled'' = Some (UpdateCalled m)
   \<and> stats m ''closeCalled'' = Some (CloseCalled m)
   \<and> dom (stats m)
     = {''createCalled'', ''getCalled'', ''updateCalled'', ''closeCalled'', ''totalIssues''}"
  by (simp only: counters_Create counters_Get counters_Update counters_Close counters_Reopen
      stats_Reopen stats_lookup dom_stats simp_thms)

theorem MockProvider_call_counts_witness:
  "counters (snd (MockProvider_Close ''fake-token'' ''owner/repo'' 1 NewMockProvider))
     = (0, 0, 0, 1)
   \<and> counters (snd (MockProvider_Reopen ''fake-token'' ''owner/repo'' 1 NewMockProvider))
     = (0, 0, 0, 0)
   \<and> stats NewMockProvider ''closeCalled'' = Some 0"
  using MockProvider_call_counts [of "''fake-token''" "\<lparr>in_Repo = ''owner/repo'',
      in_Title = ''Test Issue'', in_Body = [], in_Labels = None\<rparr>" NewMockProvider
      "''owner/repo''" 1 "\<lparr>upd_Title = [], upd_Body = [], upd_Labels = None\<rparr>"]
  by (simp add: NewMockProvider_def counters_def)

section \<open>Properties of Update\<close>

lemma MockProvider_Update_stored:
  assumes "UpdateFunc m = None" and "issues m (issueKey repo n) = Some old"
  shows "MockProvider_Update token repo n input m =
           (Inr (old\<lparr>Title := (if upd_Title input = [] then Title old else upd_Title input),
                     Body := (if upd_Body input = [] then Body old else upd_Body input),
                     Labels := (case upd_Labels input of
                                  None \<Rightarrow> Labels old | Some ls \<Rightarrow> Some ls)\<rparr>),
            m\<lparr>UpdateCalled := UpdateCalled m + 1,
              issues := (issues m)(issueKey repo n \<mapsto>
                 old\<lparr>Title := (if upd_Title input = [] then Title old else upd_Title input),
                     Body := (if upd_Body input = [] then Body old else upd_Body input),
                     Labels := (case upd_Labels input of
                                  None \<Rightarrow> Labels old | Some ls \<Rightarrow> Some ls)\<rparr>)\<rparr>)"
  using assms
  by (simp add: MockProvider_Update_def Let_def split: option.splits)

lemma Update_request_fields:
  "req_Title (Update_request input)
     = (if upd_Title input = [] then None else Some (upd_Title input))"
  "req_Body (Update_request input)
     = (if upd_Body input = [] then None else Some (upd_Body input))"
  "req_Labels (Update_request input)
     = (case upd_Labels input of None \<Rightarrow> None | Some ls \<Rightarrow> Some (Some ls))"
  "req_State (Update_request input) = None"
  by (simp_all add: Update_request_def Let_def split: option.splits)

lemma GitHubProvider_Update_remote:
  assumes "parseRepo repoStr = Inr (owner, name)" and "g (owner, name, n) = Some old"
  shows "snd (GitHubProvider_Update Issues_Edit token repoStr n input g) =
           g((owner, name, n) \<mapsto>
              old\<lparr>gh_Title := (if upd_Title input = [] then gh_Title old
                               else Some (upd_Title input)),
                  gh_Body := (if upd_Body input = [] then gh_Body old
                              else Some (upd_Body input)),
                  gh_Labels := (case upd_Labels input of
                                  None \<Rightarrow> gh_Labels old
                                | Some ls \<Rightarrow> map (\<lambda>l. \<lparr>label_Name = Some l\<rparr>) ls)\<rparr>)"
  using assms
  by (simp add: GitHubProvider_Update_def Issues_Edit_def apply_request_def
      Update_request_fields elems_def split: option.splits)

text \<open>
  C6.  For every Update call on the external resource client, an empty title or body
  means the remote resource's title or body is unchanged, a nil label list means the
  labels are unchanged, and an explicitly empty label list clears all labels.
  For the in-memory fake: with no Update override installed and the issue present, the
  call succeeds, and the issue stored and returned has the input's title and body where
  they are not empty and the old ones where they are, and the input's label list where
  it is not nil and the old one where it is; the number, the URL and the state stay.
  For the live adapter: with a well-formed repository name and the issue present on the
  remote side, the request it sends leaves the remote issue with the same rule for title,
  body and labels.
\<close>

theorem Update_empty_means_unchanged:
  assumes "UpdateFunc m = None"
    and "issues m (issueKey repo n) = Some old"
    and "parseRepo repoStr = Inr (owner, name)"
    and "g (owner, name, n) = Some gh_old"
  shows
    "(case MockProvider_Update token repo n input m of
        (Inl err, m') \<Rightarrow> False
      | (Inr new, m') \<Rightarrow>
          issues m' (issueKey repo n) = Some new
          \<and> Title new = (if upd_Title input = [] then Title old else upd_Title input)
          \<and> Body new = (if upd_Body input = [] then Body old else upd_Body input)
          \<and> Labels new = (case upd_Labels input of None \<Rightarrow> Labels old | Some ls \<Rightarrow> Some ls)
          \<and> Number new = Number old \<and> URL new = URL old \<and> State new = State old)
     \<and> (case snd (GitHubProvider_Update Issues_Edit token repoStr n input g) (owner, name, n) of
        None \<Rightarrow> False
      | Some gh_new \<Rightarrow>
          gh_Title gh_new
            = (if upd_Title input = [] then gh_Title gh_old else Some (upd_Title input))
          \<and> gh_Body gh_new
            = (if upd_Body input = [] then gh_Body gh_old else Some (upd_Body input))
          \<and> extractLabels (gh_Labels gh_new)
            = (case upd_Labels input of
                 None \<Rightarrow> extractLabels (gh_Labels gh_old) | Some ls \<Rightarrow> ls)
          \<and> gh_Number gh_new = gh_Number gh_old \<and> gh_State gh_new = gh_State gh_old)"
proof -
  have "extractLabels (map (\<lambda>l. \<lparr>label_Name = Some l\<rparr>) ls) = ls" for ls
    by (induction ls) simp_all
  then show ?thesis
    by (simp add: MockProvider_Update_stored [OF assms(1,2)]
        GitHubProvider_Update_remote [where g = g, OF assms(3,4)] split: option.splits)
qed

theorem Update_empty_means_unchanged_witness:
  "(case MockProvider_Update ''fake-token'' ''owner/repo'' 1
          \<lparr>upd_Title = [], upd_Body = ''new body'', upd_Labels = Some []\<rparr>
          (snd (MockProvider_Create ''fake-token''
                  \<lparr>in_Repo = ''owner/repo'', in_Title = ''Test Issue'',
                   in_Body = ''This is a test issue'', in_Labels = Some [''bug'']\<rparr>
                  NewMockProvider)) of
      (Inl err, m') \<Rightarrow> False
    | (Inr new, m') \<Rightarrow>
        Title new = ''Test Issue'' \<and> Body new = ''new body'' \<and> Labels new = Some [])
   \<and> (case snd (GitHubProvider_Update Issues_Edit ''fake-token'' ''owner/repo'' 1
                  \<lparr>upd_Title = [], upd_Body = ''new body'', upd_Labels = Some []\<rparr>
                  [(''owner'', ''repo'', 1) \<mapsto>
                     \<lparr>gh_Number = Some 1, gh_HTMLURL = None, gh_State = Some ''open'',
                      gh_Title = Some ''Test Issue'', gh_Body = None,
                      gh_Labels = [\<lparr>label_Name = Some ''bug''\<rparr>]\<rparr>])
             (''owner'', ''repo'', 1) of
      None \<Rightarrow> False
    | Some gh_new \<Rightarrow>
        gh_Title gh_new = Some ''Test Issue'' \<and> gh_Body gh_new = Some ''new body''
        \<and> extractLabels (gh_Labels gh_new) = [])"
proof -
  have a: "UpdateFunc (snd (MockProvider_Create ''fake-token''
                  \<lparr>in_Repo = ''owner/repo'', in_Title = ''Test Issue'',
                   in_Body = ''This is a test issue'', in_Labels = Some [''bug'']\<rparr>
                  NewMockProvider)) = None"
    by (simp add: MockProvider_Create_def NewMockProvider_def Let_def)
  have b: "issues (snd (MockProvider_Create ''fake-token''
                  \<lparr>in_Repo = ''owner/repo'', in_Title = ''Test Issue'',
                   in_Body = ''This is a test issue'', in_Labels = Some [''bug'']\<rparr>
                  NewMockProvider)) (issueKey ''owner/repo'' 1)
           = Some \<lparr>Number = 1, URL = ''https://github.com/owner/repo/issues/1'',
                   State = ''open'', Title = ''Test Issue'', Body = ''This is a test issue'',
                   Labels = Some [''bug'']\<rparr>"
    by (simp add: MockProvider_Create_def NewMockProvider_def Let_def issueKey_def itoa_1)
  have c: "parseRepo ''owner/repo'' = Inr (''owner'', ''repo'')"
    by (simp add: parseRepo_def)
  have d: "[(''owner'', ''repo'', 1 :: go_int) \<mapsto>
                     \<lparr>gh_Number = Some 1, gh_HTMLURL = None, gh_State = Some ''open'',
                      gh_Title = Some ''Test Issue'', gh_Body = None,
                      gh_Labels = [\<lparr>label_Name = Some ''bug''\<rparr>]\<rparr>] (''owner'', ''repo'', 1)
           = Some \<lparr>gh_Number = Some 1, gh_HTMLURL = None, gh_State = Some ''open'',
                      gh_Title = Some ''Test Issue'', gh_Body = None,
                      gh_Labels = [\<lparr>label_Name = Some ''bug''\<rparr>]\<rparr>"
    by simp
  from Update_empty_means_unchanged [where token = "''fake-token''"
      and input = "\<lparr>upd_Title = [], upd_Body = ''new body'', upd_Labels = Some []\<rparr>"
      and g = "[(''owner'', ''repo'', 1) \<mapsto>
                     \<lparr>gh_Number = Some 1, gh_HTMLURL = None, gh_State = Some ''open'',
                      gh_Title = Some ''Test Issue'', gh_Body = None,
                      gh_Labels = [\<lparr>label_Name = Some ''bug''\<rparr>]\<rparr>]", OF a b c d]
  show ?thesis
    by (simp split: prod.splits sum.splits option.splits)
qed

section \<open>Properties of the worker loop\<close>

text \<open>
  C5 (as stated, refuted).  The claim reads: for every dequeued key, Done(key) is invoked
  in every case, even when the reconcile function panics.  With a reconcile function that
  panics on the first key the loop has made one queue call, the Get, and has ended; the
  Done of that key is not among its calls.
\<close>

theorem worker_panic_counterexample:
  "worker (\<lambda>key c. (Panics, c)) [(''team-a'', False), (''team-b'', False)] ()
     = (([Queue_Get], Panicked), ())
   \<and> Queue_Done ''team-a''
       \<notin> set (fst (fst (worker (\<lambda>key c. (Panics, c))
                           [(''team-a'', False), (''team-b'', False)] ())))"
  by simp

text \<open>
  C5 (amended).  In the main loop, for every dequeued key on which the reconcile function
  returns, Done(key) is invoked: after Forget(key) when it returned nil, after
  AddRateLimited(key) when it returned an error; the loop then goes on with the next Get.
  There is no deferred cleanup: when the reconcile function panics the loop ends with
  the Get as its last queue call.
\<close>

theorem worker_Done_after_return:
  "(rc key c = (Returns None, c') \<longrightarrow>
      worker rc ((key, False) # answers) c
        = (([Queue_Get, Queue_Forget key, Queue_Done key] @ fst (fst (worker rc answers c')),
            snd (fst (worker rc answers c'))), snd (worker rc answers c')))
   \<and> (rc key c = (Returns (Some err), c') \<longrightarrow>
      worker rc ((key, False) # answers) c
        = (([Queue_Get, Queue_AddRateLimited key, Queue_Done key]
              @ fst (fst (worker rc answers c')),
            snd (fst (worker rc answers c'))), snd (worker rc answers c')))
   \<and> (rc key c = (Panics, c') \<longrightarrow>
      worker rc ((key, False) # answers) c = (([Queue_Get], Panicked), c'))
   \<and> worker rc ((key, True) # answers) c = (([Queue_Get], Shut_down), c)"
  by (simp split: prod.splits)

theorem worker_Done_after_return_witness:
  "worker (\<lambda>key c. (Returns (if key = ''team-a'' then None else Some (Failure ''conflict'')),
                      c + 1))
      [(''team-a'', False), (''team-b'', False), ([], True)] (0 :: nat)
     = (([Queue_Get, Queue_Forget ''team-a'', Queue_Done ''team-a'',
          Queue_Get, Queue_AddRateLimited ''team-b'', Queue_Done ''team-b'',
          Queue_Get], Shut_down), 2)"
proof -
  let ?rc = "\<lambda>key (c :: nat).
      (Returns (if key = ''team-a'' then None else Some (Failure ''conflict'')), c + 1)"
  have a: "?rc ''team-a'' 0 = (Returns None, 1)"
    by simp
  have b: "?rc ''team-b'' 1 = (Returns (Some (Failure ''conflict'')), 2)"
    by simp
  note s1 = worker_Done_after_return [of ?rc "''team-a''" 0 1
      "[(''team-b'', False), ([], True)]" "Failure ''conflict''"]
  note s2 = worker_Done_after_return [of ?rc "''team-b''" 1 2 "[([], True)]"
      "Failure ''conflict''"]
  note s3 = worker_Done_after_return [of ?rc "[]" 2 2 "[]" "Failure ''conflict''"]
  from s3 have w3: "worker ?rc [([], True)] 2 = (([Queue_Get], Shut_down), 2)"
    by blast
  from s2 b have w2: "worker ?rc [(''team-b'', False), ([], True)] 1
      = (([Queue_Get, Queue_AddRateLimited ''team-b'', Queue_Done ''team-b'']
            @ fst (fst (worker ?rc [([], True)] 2)),
          snd (fst (worker ?rc [([], True)] 2))), snd (worker ?rc [([], True)] 2))"
    by blast
  from s1 a have w1: "worker ?rc [(''team-a'', False), (''team-b'', False), ([], True)] 0
      = (([Queue_Get, Queue_Forget ''team-a'', Queue_Done ''team-a'']
            @ fst (fst (worker ?rc [(''team-b'', False), ([], True)] 1)),
          snd (fst (worker ?rc [(''team-b'', False), ([], True)] 1))),
         snd (worker ?rc [(''team-b'', False), ([], True)] 1))"
    by blast
  show ?thesis
    by (simp only: w1 w2 w3 fst_conv snd_conv append.simps)
qed

section \<open>Properties of the namespace reconcile function\<close>

lemma render_patch_document: "render patch_document = patch"
  by (simp add: patch_document_def patch_def)

lemma jget_member:
  "ks \<noteq> [] \<Longrightarrow> jget (object_member (JObject (object_fields t)) k) ks = jget t (k # ks)"
  by (cases t; cases ks) (simp_all split: option.splits)

lemma jget_merge_single:
  assumes "v \<noteq> JNull"
  shows "jget (merge_patch t (JObject [(k, v)])) (k' # ks)
           = (if k' = k
              then jget (merge_patch (object_member (JObject (object_fields t)) k) v) ks
              else jget t (k' # ks))"
  using assms by (cases t) (simp_all add: update_conv')

lemma merge_patch_team:
  "jget (merge_patch doc patch_document) team_path = Some (JString ''unassigned'')"
  by (simp add: patch_document_def team_path_def update_conv')

lemma merge_patch_frame:
  assumes "\<not> prefix p team_path" and "\<not> prefix team_path p"
  shows "jget (merge_patch doc patch_document) p = jget doc p"
proof (cases p)
  case Nil
  with assms show ?thesis by simp
next
  case p1: (Cons k1 ks1)
  show ?thesis
  proof (cases "k1 = ''metadata''")
    case False
    with p1 show ?thesis
      unfolding patch_document_def
      by (simp add: jget_merge_single del: merge_patch.simps object_member.simps)
  next
    case m: True
    show ?thesis
    proof (cases ks1)
      case Nil
      with p1 m assms show ?thesis by (simp add: team_path_def)
    next
      case p2: (Cons k2 ks2)
      show ?thesis
      proof (cases "k2 = ''labels''")
        case False
        with p1 m p2 show ?thesis
          unfolding patch_document_def
          by (simp add: jget_merge_single jget_member
              del: merge_patch.simps object_member.simps)
      next
        case l: True
        show ?thesis
        proof (cases ks2)
          case Nil
          with p1 m p2 l assms show ?thesis by (simp add: team_path_def)
        next
          case p3: (Cons k3 ks3)
          with p1 m p2 l assms have "k3 \<noteq> ''team''"
            by (auto simp: team_path_def)
          with p1 m p2 l p3 show ?thesis
            unfolding patch_document_def
            by (simp add: jget_merge_single jget_member
                del: merge_patch.simps object_member.simps)
        qed
      qed
    qed
  qed
qed

lemma reconcile_skip:
  assumes "lister key = Inr ns"
    and "ns_Name ns \<in> {''kube-system'', ''kube-public'', ''kube-node-lease'', ''default''}
         \<or> ns_Labels ns ''team'' \<noteq> None"
  shows "reconcile Patch lister key c = ((None, []), c)"
  using assms by (auto simp: reconcile_def)

lemma reconcile_patch:
  assumes "lister key = Inr ns"
    and "ns_Name ns \<notin> {''kube-system'', ''kube-public'', ''kube-node-lease'', ''default''}"
    and "ns_Labels ns ''team'' = None"
  shows "reconcile Patch lister key c
           = ((fst (Patch (ns_Name ns) MergePatchType patch c),
               [Patch_call (ns_Name ns) MergePatchType patch]),
              snd (Patch (ns_Name ns) MergePatchType patch c))"
  using assms by (simp add: reconcile_def split: prod.splits)

text \<open>
  C10.  The namespace reconcile function issues no Patch and leaves the state behind the
  clientset as it is for every namespace named kube-system, kube-public, kube-node-lease or
  default, and for every namespace that already carries a team label.  For every other
  namespace it makes exactly one call, a merge patch on that namespace whose body is the
  text of the document \<open>{metadata: {labels: {team: unassigned}}}\<close>.  Applied as a merge
  patch to any document, that body sets \<open>metadata.labels.team\<close> to \<open>unassigned\<close> and
  leaves the value at every path that does not lead to it or through it as it was: every
  other label and every other field.
\<close>

theorem reconcile_adds_only_team_label:
  assumes "lister key = Inr ns"
  shows
    "(ns_Name ns \<in> {''kube-system'', ''kube-public'', ''kube-node-lease'', ''default''}
        \<or> ns_Labels ns ''team'' \<noteq> None
      \<longrightarrow> reconcile Patch lister key c = ((None, []), c))
     \<and> (ns_Name ns \<notin> {''kube-system'', ''kube-public'', ''kube-node-lease'', ''default''}
        \<and> ns_Labels ns ''team'' = None
      \<longrightarrow> reconcile Patch lister key c
            = ((fst (Patch (ns_Name ns) MergePatchType patch c),
                [Patch_call (ns_Name ns) MergePatchType patch]),
               snd (Patch (ns_Name ns) MergePatchType patch c)))
     \<and> patch = render patch_document
     \<and> jget (merge_patch doc patch_document) team_path = Some (JString ''unassigned'')
     \<and> (\<forall>p. \<not> prefix p team_path \<and> \<not> prefix team_path p
            \<longrightarrow> jget (merge_patch doc patch_document) p = jget doc p)"
proof -
  note skip = reconcile_skip [where lister = lister and key = key and Patch = Patch
      and c = c, OF assms]
  note change = reconcile_patch [where lister = lister and key = key and Patch = Patch
      and c = c, OF assms]
  show ?thesis
  proof (intro conjI impI allI)
    assume "ns_Name ns \<in> {''kube-system'', ''kube-public'', ''kube-node-lease'', ''default''}
        \<or> ns_Labels ns ''team'' \<noteq> None"
    then show "reconcile Patch lister key c = ((None, []), c)"
      by (rule skip)
  next
    assume "ns_Name ns \<notin> {''kube-system'', ''kube-public'', ''kube-node-lease'', ''default''}
        \<and> ns_Labels ns ''team'' = None"
    then show "reconcile Patch lister key c
            = ((fst (Patch (ns_Name ns) MergePatchType patch c),
                [Patch_call (ns_Name ns) MergePatchType patch]),
               snd (Patch (ns_Name ns) MergePatchType patch c))"
      using change by blast
  next
    show "patch = render patch_document"
      by (simp add: render_patch_document)
  next
    show "jget (merge_patch doc patch_document) team_path = Some (JString ''unassigned'')"
      by (rule merge_patch_team)
  next
    fix p
    assume "\<not> prefix p team_path \<and> \<not> prefix team_path p"
    then show "jget (merge_patch doc patch_document) p = jget doc p"
      by (simp add: merge_patch_frame)
  qed
qed

theorem reconcile_adds_only_team_label_witness:
  "reconcile (\<lambda>name pt body doc. (None, merge_patch doc patch_document))
      (\<lambda>key. Inr \<lparr>ns_Name = ''test-ns'', ns_Labels = [''env'' \<mapsto> ''production'']\<rparr>)
      ''test-ns''
      (JObject [(''metadata'', JObject [(''name'', JString ''test-ns''),
                                         (''labels'', JObject [(''env'', JString ''production'')])]),
                (''spec'', JObject [])])
     = ((None, [Patch_call ''test-ns'' MergePatchType patch]),
        JObject [(''metadata'', JObject [(''name'', JString ''test-ns''),
                    (''labels'', JObject [(''env'', JString ''production''),
                                          (''team'', JString ''unassigned'')])]),
                 (''spec'', JObject [])])
   \<and> reconcile (\<lambda>name pt body doc. (None, merge_patch doc patch_document))
      (\<lambda>key. Inr \<lparr>ns_Name = ''test-ns'', ns_Labels = [''team'' \<mapsto> ''backend'']\<rparr>)
      ''test-ns'' JNull
     = ((None, []), JNull)"
proof -
  let ?P = "\<lambda>(name :: string) (pt :: PatchType) (body :: string) doc.
              (None :: error option, merge_patch doc patch_document)"
  let ?doc = "JObject [(''metadata'', JObject [(''name'', JString ''test-ns''),
                                         (''labels'', JObject [(''env'', JString ''production'')])]),
                (''spec'', JObject [])]"
  let ?l1 = "\<lambda>key :: string. Inr \<lparr>ns_Name = ''test-ns'', ns_Labels = [''env'' \<mapsto> ''production'']\<rparr>
               :: error + corev1_Namespace"
  let ?l2 = "\<lambda>key :: string. Inr \<lparr>ns_Name = ''test-ns'', ns_Labels = [''team'' \<mapsto> ''backend'']\<rparr>
               :: error + corev1_Namespace"
  have a: "?l1 ''test-ns'' = Inr \<lparr>ns_Name = ''test-ns'', ns_Labels = [''env'' \<mapsto> ''production'']\<rparr>"
    by simp
  have b: "?l2 ''test-ns'' = Inr \<lparr>ns_Name = ''test-ns'', ns_Labels = [''team'' \<mapsto> ''backend'']\<rparr>"
    by simp
  from reconcile_adds_only_team_label [where lister = ?l1 and Patch = ?P and c = ?doc, OF a]
  have "reconcile ?P ?l1 ''test-ns'' ?doc
          = ((None, [Patch_call ''test-ns'' MergePatchType patch]), merge_patch ?doc patch_document)"
    by simp
  moreover have "merge_patch ?doc patch_document
          = JObject [(''metadata'', JObject [(''name'', JString ''test-ns''),
                    (''labels'', JObject [(''env'', JString ''production''),
                                          (''team'', JString ''unassigned'')])]),
                 (''spec'', JObject [])]"
    by (simp add: patch_document_def)
  moreover
  from reconcile_adds_only_team_label [where lister = ?l2 and Patch = ?P and c = JNull, OF b]
  have "reconcile ?P ?l2 ''test-ns'' JNull = ((None, []), JNull)"
    by simp
  ultimately show ?thesis
    by simp
qed

section \<open>Properties of Reconcile\<close>

lemmas fake_defs =
  fake_client_def fake_Get_def fake_Get_Secret_def fake_Update_def fake_Status_Update_def
  key_of_def secret_key_def

lemmas test_defs =
  test_world_def test_cluster_def namespacedName_def test_issue_def test_secret_def

lemmas mock_defs =
  MockProvider_impl_def MockProvider_Create_def MockProvider_Get_def MockProvider_Update_def
  MockProvider_Close_def MockProvider_Reopen_def NewMockProvider_def issueKey_def itoa_1

lemmas result_defs =
  no_requeue_def requeue_now_def requeue_after_def Second_def Minute_def

lemma Reconcile_steps:
  assumes "client_Get r req (cluster w) = Inr issue"
    and "client_Get_Secret r (secret_key issue) (cluster w) = Inr secret"
    and "Data secret ''token'' = Some token"
  shows "Reconcile r ip req w =
           (if \<not> IsZero (DeletionTimestamp issue) then Reconcile_deletion r ip token issue w
            else if \<not> ContainsFinalizer issue githubIssueFinalizer
            then Reconcile_finalizer r issue w
            else if IssueNumber (Status issue) = 0 then Reconcile_create r ip token issue w
            else Reconcile_sync r ip token issue w)"
  using assms by (simp add: Reconcile_def secret_key_def)

lemma Reconcile_secret_error:
  assumes "client_Get r req (cluster w) = Inr issue"
    and "client_Get_Secret r (secret_key issue) (cluster w) = Inl err"
  shows "Reconcile r ip req w = ((no_requeue, Some err), w)"
  using assms by (simp add: Reconcile_def secret_key_def)

lemma Reconcile_no_token:
  assumes "client_Get r req (cluster w) = Inr issue"
    and "client_Get_Secret r (secret_key issue) (cluster w) = Inr secret"
    and "Data secret ''token'' = None"
  shows "Reconcile r ip req w = ((requeue_after (30 * Second), None), w)"
  using assms by (simp add: Reconcile_def secret_key_def)

lemma RemoveFinalizer_gone: "\<not> ContainsFinalizer (RemoveFinalizer issue f) f"
  by (simp add: ContainsFinalizer_def RemoveFinalizer_def)

lemma AddFinalizer_there: "ContainsFinalizer (AddFinalizer issue f) f"
  by (simp add: ContainsFinalizer_def AddFinalizer_def)

subsection \<open>The credential\<close>

text \<open>
  C1 (as stated, refuted).  The claim reads: when the referenced secret is missing or
  lacks the token key, Reconcile returns a non-nil error.  The issue of the test suite,
  with its secret holding the key \<open>password\<close> instead of \<open>token\<close>, is reconciled with a
  nil error and a requeue after 30 seconds.
\<close>

theorem Reconcile_no_token_counterexample:
  "Data \<lparr>Data = [''password'' \<mapsto> ''fake-token'']\<rparr> ''token'' = None
   \<and> Reconcile fake_client MockProvider_impl namespacedName
        (test_world test_issue \<lparr>Data = [''password'' \<mapsto> ''fake-token'']\<rparr>)
      = ((\<lparr>Requeue = False, RequeueAfter = 30000000000\<rparr>, None),
         test_world test_issue \<lparr>Data = [''password'' \<mapsto> ''fake-token'']\<rparr>)"
  by (simp add: Reconcile_def fake_defs test_defs result_defs)

text \<open>
  C1 (amended).  For every reconciliation attempt of a GitHubIssue that was fetched: when
  reading the referenced secret fails (the secret is missing), Reconcile returns that
  error, with the empty result; when the secret is there and lacks the token key,
  Reconcile returns a nil error and a requeue after 30 seconds.  In both cases the
  world is left as it was: nothing is written and no call reaches the provider, so Create
  is never called.
\<close>

theorem Reconcile_credential:
  assumes "client_Get r req (cluster w) = Inr issue"
  shows
    "(client_Get_Secret r (secret_key issue) (cluster w) = Inl err
        \<longrightarrow> Reconcile r ip req w = ((no_requeue, Some err), w))
     \<and> (client_Get_Secret r (secret_key issue) (cluster w) = Inr secret
          \<and> Data secret ''token'' = None
        \<longrightarrow> Reconcile r ip req w = ((requeue_after (30 * Second), None), w))"
  using Reconcile_secret_error [where r = r, OF assms] Reconcile_no_token [where r = r, OF assms]
  by blast

theorem Reconcile_credential_witness:
  "Reconcile fake_client MockProvider_impl namespacedName
      (test_world (test_issue\<lparr>Spec := (Spec test_issue)\<lparr>TokenSecretRef := ''nonexistent-secret''\<rparr>\<rparr>)
         test_secret)
     = ((no_requeue, Some (NotFound ''nonexistent-secret'')),
        test_world (test_issue\<lparr>Spec := (Spec test_issue)\<lparr>TokenSecretRef := ''nonexistent-secret''\<rparr>\<rparr>)
          test_secret)
   \<and> CreateCalled (remote (snd (Reconcile fake_client MockProvider_impl namespacedName
        (test_world (test_issue\<lparr>Spec := (Spec test_issue)\<lparr>TokenSecretRef := ''nonexistent-secret''\<rparr>\<rparr>)
           test_secret)))) = 0
   \<and> Reconcile fake_client MockProvider_impl namespacedName
        (test_world test_issue \<lparr>Data = Map.empty\<rparr>)
     = ((requeue_after (30 * Second), None), test_world test_issue \<lparr>Data = Map.empty\<rparr>)"
proof -
  let ?issue = "test_issue\<lparr>Spec := (Spec test_issue)\<lparr>TokenSecretRef := ''nonexistent-secret''\<rparr>\<rparr>"
  let ?w = "test_world ?issue test_secret"
  let ?w' = "test_world test_issue \<lparr>Data = Map.empty\<rparr>"
  have a: "client_Get fake_client namespacedName (cluster ?w) = Inr ?issue"
    by (simp add: fake_defs test_defs)
  have b: "client_Get_Secret fake_client (secret_key ?issue) (cluster ?w)
             = Inl (NotFound ''nonexistent-secret'')"
    by (simp add: fake_defs test_defs)
  have a': "client_Get fake_client namespacedName (cluster ?w') = Inr test_issue"
    by (simp add: fake_defs test_defs)
  have b': "client_Get_Secret fake_client (secret_key test_issue) (cluster ?w')
             = Inr \<lparr>Data = Map.empty\<rparr>"
    by (simp add: fake_defs test_defs)
  have c': "Data \<lparr>Data = Map.empty\<rparr> ''token'' = None"
    by simp
  from Reconcile_credential [where r = fake_client and ip = MockProvider_impl
      and err = "NotFound ''nonexistent-secret''" and secret = test_secret, OF a] b
  have first: "Reconcile fake_client MockProvider_impl namespacedName ?w
          = ((no_requeue, Some (NotFound ''nonexistent-secret'')), ?w)"
    by blast
  from Reconcile_credential [where r = fake_client and ip = MockProvider_impl
      and err = "NotFound []" and secret = "\<lparr>Data = Map.empty\<rparr>", OF a'] b' c'
  have second: "Reconcile fake_client MockProvider_impl namespacedName ?w'
          = ((requeue_after (30 * Second), None), ?w')"
    by blast
  have "CreateCalled (remote (snd (Reconcile fake_client MockProvider_impl namespacedName ?w)))
          = 0"
    unfolding first by (simp add: test_world_def NewMockProvider_def)
  with first second show ?thesis
    by (intro conjI)
qed

subsection \<open>Deletion\<close>

lemma deletion_close_fails:
  assumes "ContainsFinalizer issue githubIssueFinalizer"
    and "0 <s IssueNumber (Status issue)"
    and "Close ip token (Repo (Spec issue)) (IssueNumber (Status issue)) (remote w)
           = (Some err, p)"
  shows "Reconcile_deletion r ip token issue w
     = ((requeue_after (30 * Second), None),
        w\<lparr>remote := p,
          trace := trace w
            @ [Call_Close token (Repo (Spec issue)) (IssueNumber (Status issue))]\<rparr>)"
  using assms by (simp add: Reconcile_deletion_def call_Close_def)

lemma deletion_close_ok:
  assumes "ContainsFinalizer issue githubIssueFinalizer"
    and "0 <s IssueNumber (Status issue)"
    and "Close ip token (Repo (Spec issue)) (IssueNumber (Status issue)) (remote w)
           = (None, p)"
  shows "Reconcile_deletion r ip token issue w
     = ((no_requeue,
         fst (client_Update r (RemoveFinalizer issue githubIssueFinalizer) (cluster w))),
        w\<lparr>cluster :=
            snd (client_Update r (RemoveFinalizer issue githubIssueFinalizer) (cluster w)),
          remote := p,
          trace := trace w
            @ [Call_Close token (Repo (Spec issue)) (IssueNumber (Status issue)),
               Write_Update (RemoveFinalizer issue githubIssueFinalizer)]\<rparr>)"
  using assms
  by (simp add: Reconcile_deletion_def call_Close_def write_Update_def
      split: prod.splits option.splits)

lemma deletion_nothing_to_close:
  assumes "ContainsFinalizer issue githubIssueFinalizer"
    and "\<not> 0 <s IssueNumber (Status issue)"
  shows "Reconcile_deletion r ip token issue w
     = ((no_requeue,
         fst (client_Update r (RemoveFinalizer issue githubIssueFinalizer) (cluster w))),
        w\<lparr>cluster :=
            snd (client_Update r (RemoveFinalizer issue githubIssueFinalizer) (cluster w)),
          trace := trace w @ [Write_Update (RemoveFinalizer issue githubIssueFinalizer)]\<rparr>)"
  using assms
  by (simp add: Reconcile_deletion_def write_Update_def split: prod.splits option.splits)

lemma deletion_no_finalizer:
  assumes "\<not> ContainsFinalizer issue githubIssueFinalizer"
  shows "Reconcile_deletion r ip token issue w = ((no_requeue, None), w)"
  using assms by (simp add: Reconcile_deletion_def)

text \<open>
  C3.  For every GitHubIssue that was fetched with its token and whose deletion marker is
  set:
  with the finalizer present and a positive issue number, Reconcile calls Close, once and
  as its only call to the provider; if Close fails nothing is written, so the finalizer
  stays, and the result is a requeue after 30 seconds with a nil error; if Close succeeds
  the object with the finalizer removed is written by Update, and the result is the empty
  one, with the error of that write, nil when it succeeded.
  With the finalizer present and an issue number that is zero (or not positive) no call
  reaches the provider, and the finalizer is removed and written in the same way.
  With no finalizer left, Reconcile calls nothing, writes nothing, and returns the empty
  result with a nil error.
\<close>

theorem Reconcile_deletion_cleanup:
  assumes "client_Get r req (cluster w) = Inr issue"
    and "client_Get_Secret r (secret_key issue) (cluster w) = Inr secret"
    and "Data secret ''token'' = Some token"
    and "\<not> IsZero (DeletionTimestamp issue)"
  shows
    "(ContainsFinalizer issue githubIssueFinalizer \<and> 0 <s IssueNumber (Status issue)
        \<and> Close ip token (Repo (Spec issue)) (IssueNumber (Status issue)) (remote w)
            = (Some err, p)
      \<longrightarrow> Reconcile r ip req w
            = ((requeue_after (30 * Second), None),
               w\<lparr>remote := p,
                 trace := trace w
                   @ [Call_Close token (Repo (Spec issue)) (IssueNumber (Status issue))]\<rparr>))
     \<and> (ContainsFinalizer issue githubIssueFinalizer \<and> 0 <s IssueNumber (Status issue)
        \<and> Close ip token (Repo (Spec issue)) (IssueNumber (Status issue)) (remote w)
            = (None, p)
      \<longrightarrow> Reconcile r ip req w
            = ((no_requeue,
                fst (client_Update r (RemoveFinalizer issue githubIssueFinalizer) (cluster w))),
               w\<lparr>cluster :=
                   snd (client_Update r (RemoveFinalizer issue githubIssueFinalizer) (cluster w)),
                 remote := p,
                 trace := trace w
                   @ [Call_Close token (Repo (Spec issue)) (IssueNumber (Status issue)),
                      Write_Update (RemoveFinalizer issue githubIssueFinalizer)]\<rparr>))
     \<and> (ContainsFinalizer issue githubIssueFinalizer \<and> \<not> 0 <s IssueNumber (Status issue)
      \<longrightarrow> Reconcile r ip req w
            = ((no_requeue,
                fst (client_Update r (RemoveFinalizer issue githubIssueFinalizer) (cluster w))),
               w\<lparr>cluster :=
                   snd (client_Update r (RemoveFinalizer issue githubIssueFinalizer) (cluster w)),
                 trace := trace w
                   @ [Write_Update (RemoveFinalizer issue githubIssueFinalizer)]\<rparr>))
     \<and> (\<not> ContainsFinalizer issue githubIssueFinalizer
      \<longrightarrow> Reconcile r ip req w = ((no_requeue, None), w))
     \<and> \<not> ContainsFinalizer (RemoveFinalizer issue githubIssueFinalizer) githubIssueFinalizer
     \<and> \<not> 0 <s (0 :: go_int)"
proof -
  have "Reconcile r ip req w = Reconcile_deletion r ip token issue w"
    using assms by (simp add: Reconcile_steps [where r = r])
  then show ?thesis
    by (simp add: deletion_close_fails deletion_close_ok deletion_nothing_to_close
        deletion_no_finalizer RemoveFinalizer_gone)
qed

theorem Reconcile_deletion_cleanup_witness:
  "fst (Reconcile fake_client MockProvider_impl namespacedName
          ((test_world (synced_issue\<lparr>DeletionTimestamp := Some 1\<rparr>) test_secret)
             \<lparr>remote := mock_with_issue\<rparr>))
     = (no_requeue, None)
   \<and> trace (snd (Reconcile fake_client MockProvider_impl namespacedName
          ((test_world (synced_issue\<lparr>DeletionTimestamp := Some 1\<rparr>) test_secret)
             \<lparr>remote := mock_with_issue\<rparr>)))
     = [Call_Close ''fake-token'' ''owner/repo'' 1,
        Write_Update (synced_issue\<lparr>DeletionTimestamp := Some 1, Finalizers := []\<rparr>)]
   \<and> objects (cluster (snd (Reconcile fake_client MockProvider_impl namespacedName
          ((test_world (synced_issue\<lparr>DeletionTimestamp := Some 1\<rparr>) test_secret)
             \<lparr>remote := mock_with_issue\<rparr>)))) namespacedName = None
   \<and> CloseCalled (remote (snd (Reconcile fake_client MockProvider_impl namespacedName
          ((test_world (synced_issue\<lparr>DeletionTimestamp := Some 1\<rparr>) test_secret)
             \<lparr>remote := mock_with_issue\<rparr>)))) = 1
   \<and> Reconcile fake_client MockProvider_impl namespacedName
          ((test_world (synced_issue\<lparr>DeletionTimestamp := Some 1\<rparr>) test_secret)
             \<lparr>remote := mock_with_issue
                \<lparr>CloseFunc := Some (\<lambda>token repo n. Some (Failure ''unavailable''))\<rparr>\<rparr>)
     = ((\<lparr>Requeue = False, RequeueAfter = 30000000000\<rparr>, None),
        \<lparr>cluster = test_cluster (synced_issue\<lparr>DeletionTimestamp := Some 1\<rparr>) test_secret,
         remote = mock_with_issue
                \<lparr>CloseFunc := Some (\<lambda>token repo n. Some (Failure ''unavailable'')),
                 CloseCalled := 1\<rparr>,
         trace = [Call_Close ''fake-token'' ''owner/repo'' 1]\<rparr>)"
proof -
  let ?issue = "synced_issue\<lparr>DeletionTimestamp := Some 1\<rparr>"
  let ?w = "(test_world ?issue test_secret)\<lparr>remote := mock_with_issue\<rparr>"
  let ?failing = "mock_with_issue
                \<lparr>CloseFunc := Some (\<lambda>token repo n. Some (Failure ''unavailable''))\<rparr>"
  let ?wf = "(test_world ?issue test_secret)\<lparr>remote := ?failing\<rparr>"
  let ?closed = "mock_with_issue\<lparr>CloseCalled := 1,
                issues := [''owner/repo#1'' \<mapsto>
                   \<lparr>Number = 1, URL = ''https://github.com/owner/repo/issues/1'',
                    State = ''closed'', Title = ''Test Issue'', Body = ''This is a test issue'',
                    Labels = Some [''bug'']\<rparr>]\<rparr>"
  have a: "client_Get fake_client namespacedName (cluster ?w) = Inr ?issue"
    by (simp add: fake_defs test_defs)
  have b: "client_Get_Secret fake_client (secret_key ?issue) (cluster ?w) = Inr test_secret"
    by (simp add: fake_defs test_defs synced_issue_def)
  have af: "client_Get fake_client namespacedName (cluster ?wf) = Inr ?issue"
    by (simp add: fake_defs test_defs)
  have bf: "client_Get_Secret fake_client (secret_key ?issue) (cluster ?wf) = Inr test_secret"
    by (simp add: fake_defs test_defs synced_issue_def)
  have c: "Data test_secret ''token'' = Some ''fake-token''"
    by (simp add: test_secret_def)
  have d: "\<not> IsZero (DeletionTimestamp ?issue)"
    by (simp add: IsZero_def)
  have e: "ContainsFinalizer ?issue githubIssueFinalizer"
    by (simp add: ContainsFinalizer_def synced_issue_def)
  have f: "0 <s IssueNumber (Status ?issue)"
    by (simp add: synced_issue_def word_sless_alt)
  have g: "Close MockProvider_impl ''fake-token'' (Repo (Spec ?issue))
             (IssueNumber (Status ?issue)) (remote ?w) = (None, ?closed)"
    by (simp add: mock_defs mock_with_issue_def synced_issue_def test_defs create_input_def
        Let_def)
  have gf: "Close MockProvider_impl ''fake-token'' (Repo (Spec ?issue))
             (IssueNumber (Status ?issue)) (remote ?wf)
           = (Some (Failure ''unavailable''), ?failing\<lparr>CloseCalled := 1\<rparr>)"
    by (simp add: mock_defs mock_with_issue_def synced_issue_def test_defs create_input_def
        Let_def)
  note t = Reconcile_deletion_cleanup [where r = fake_client and ip = MockProvider_impl
      and err = "Failure []", OF a b c d]
  from t e f g have run:
    "Reconcile fake_client MockProvider_impl namespacedName ?w
       = ((no_requeue,
           fst (client_Update fake_client (RemoveFinalizer ?issue githubIssueFinalizer)
                  (cluster ?w))),
          ?w\<lparr>cluster :=
               snd (client_Update fake_client (RemoveFinalizer ?issue githubIssueFinalizer)
                      (cluster ?w)),
             remote := ?closed,
             trace := trace ?w
               @ [Call_Close ''fake-token'' (Repo (Spec ?issue)) (IssueNumber (Status ?issue)),
                  Write_Update (RemoveFinalizer ?issue githubIssueFinalizer)]\<rparr>)"
    by blast
  note tf = Reconcile_deletion_cleanup [where r = fake_client and ip = MockProvider_impl
      and err = "Failure ''unavailable''" and p = "?failing\<lparr>CloseCalled := 1\<rparr>",
      OF af bf c d]
  from tf e f gf have runf:
    "Reconcile fake_client MockProvider_impl namespacedName ?wf
       = ((requeue_after (30 * Second), None),
          ?wf\<lparr>remote := ?failing\<lparr>CloseCalled := 1\<rparr>,
              trace := trace ?wf
                @ [Call_Close ''fake-token'' (Repo (Spec ?issue))
                     (IssueNumber (Status ?issue))]\<rparr>)"
    by blast
  have ok: "fst (Reconcile fake_client MockProvider_impl namespacedName ?w) = (no_requeue, None)
     \<and> trace (snd (Reconcile fake_client MockProvider_impl namespacedName ?w))
       = [Call_Close ''fake-token'' ''owner/repo'' 1,
          Write_Update (synced_issue\<lparr>DeletionTimestamp := Some 1, Finalizers := []\<rparr>)]
     \<and> objects (cluster (snd (Reconcile fake_client MockProvider_impl namespacedName ?w)))
         namespacedName = None
     \<and> CloseCalled (remote (snd (Reconcile fake_client MockProvider_impl namespacedName ?w)))
       = 1"
    unfolding run
    by (simp add: fake_defs test_defs synced_issue_def RemoveFinalizer_def IsZero_def
        githubIssueFinalizer_def)
  have failed: "Reconcile fake_client MockProvider_impl namespacedName ?wf
     = ((\<lparr>Requeue = False, RequeueAfter = 30000000000\<rparr>, None),
        \<lparr>cluster = test_cluster ?issue test_secret,
         remote = ?failing\<lparr>CloseCalled := 1\<rparr>,
         trace = [Call_Close ''fake-token'' ''owner/repo'' 1]\<rparr>)"
    unfolding runf
    by (simp add: result_defs test_world_def synced_issue_def test_issue_def)
  from ok failed show ?thesis
    by (intro conjI) simp_all
qed

subsection \<open>The finalizer and the creation\<close>

lemma finalizer_step:
  assumes "client_Update r (AddFinalizer issue githubIssueFinalizer) (cluster w) = (None, s1)"
  shows "Reconcile_finalizer r issue w
           = ((requeue_now, None),
              w\<lparr>cluster := s1,
                trace := trace w @ [Write_Update (AddFinalizer issue githubIssueFinalizer)]\<rparr>)"
  using assms by (simp add: Reconcile_finalizer_def write_Update_def)

lemma create_step_calls:
  "remote_calls (trace (snd (Reconcile_create r ip token issue w)))
     = remote_calls (trace w) @ [Call_Create token (create_input issue)]"
  by (simp add: Reconcile_create_def call_Create_def write_Status_Update_def remote_calls_def
      create_input_def split: prod.splits sum.splits option.splits)

lemma create_step_remote:
  "remote (snd (Reconcile_create r ip token issue w))
     = snd (Create ip token (create_input issue) (remote w))"
  by (simp add: Reconcile_create_def call_Create_def write_Status_Update_def create_input_def
      split: prod.splits sum.splits option.splits)

text \<open>
  C2.  For every newly created GitHubIssue object (no finalizer, issue number zero, not
  being deleted) that is fetched with its token, and whose update the cluster accepts:
  the first Reconcile writes the object with the finalizer added, returns the
  immediate-requeue result with a nil error, and makes no call to the provider.
  When the next Reconcile reads the object back with the finalizer, the number still zero
  and no deletion marker, it calls Create exactly once, with the spec's repository, title,
  body and labels, and makes no other call to the provider; the provider is left as that
  one Create call leaves it.
\<close>

theorem finalizer_precedes_Create:
  assumes "client_Get r req (cluster w) = Inr issue"
    and "client_Get_Secret r (secret_key issue) (cluster w) = Inr secret"
    and "Data secret ''token'' = Some token"
    and "\<not> ContainsFinalizer issue githubIssueFinalizer"
    and "IssueNumber (Status issue) = 0"
    and "IsZero (DeletionTimestamp issue)"
    and "client_Update r (AddFinalizer issue githubIssueFinalizer) (cluster w) = (None, s1)"
    and "client_Get r req s1 = Inr issue2"
    and "client_Get_Secret r (secret_key issue2) s1 = Inr secret2"
    and "Data secret2 ''token'' = Some token2"
    and "ContainsFinalizer issue2 githubIssueFinalizer"
    and "IssueNumber (Status issue2) = 0"
    and "IsZero (DeletionTimestamp issue2)"
  shows
    "Reconcile r ip req w
       = ((requeue_now, None),
          w\<lparr>cluster := s1,
            trace := trace w @ [Write_Update (AddFinalizer issue githubIssueFinalizer)]\<rparr>)
     \<and> ContainsFinalizer (AddFinalizer issue githubIssueFinalizer) githubIssueFinalizer
     \<and> remote_calls (trace (snd (Reconcile r ip req w))) = remote_calls (trace w)
     \<and> remote (snd (Reconcile r ip req w)) = remote w
     \<and> remote_calls (trace (snd (Reconcile r ip req (snd (Reconcile r ip req w)))))
         = remote_calls (trace w) @ [Call_Create token2 (create_input issue2)]
     \<and> remote (snd (Reconcile r ip req (snd (Reconcile r ip req w))))
         = snd (Create ip token2 (create_input issue2) (remote w))"
proof -
  let ?w1 = "w\<lparr>cluster := s1,
               trace := trace w @ [Write_Update (AddFinalizer issue githubIssueFinalizer)]\<rparr>"
  have first: "Reconcile r ip req w = ((requeue_now, None), ?w1)"
    using assms(1-7) by (simp add: Reconcile_steps [where r = r] finalizer_step)
  have "Reconcile r ip req ?w1 = Reconcile_create r ip token2 issue2 ?w1"
    using assms(8-13) by (simp add: Reconcile_steps [where r = r and issue = issue2])
  then have second: "remote_calls (trace (snd (Reconcile r ip req ?w1)))
         = remote_calls (trace w) @ [Call_Create token2 (create_input issue2)]"
    and third: "remote (snd (Reconcile r ip req ?w1))
         = snd (Create ip token2 (create_input issue2) (remote w))"
    by (simp_all add: create_step_calls create_step_remote) (simp add: remote_calls_def)
  from first have w1: "snd (Reconcile r ip req w) = ?w1"
    by simp
  show ?thesis
    unfolding w1 using first second third
    by (simp add: AddFinalizer_there remote_calls_def)
qed

theorem finalizer_precedes_Create_witness:
  "Reconcile fake_client MockProvider_impl namespacedName (test_world test_issue test_secret)
     = ((requeue_now, None),
        \<lparr>cluster = test_cluster (test_issue\<lparr>Finalizers := [githubIssueFinalizer]\<rparr>) test_secret,
         remote = NewMockProvider,
         trace = [Write_Update (test_issue\<lparr>Finalizers := [githubIssueFinalizer]\<rparr>)]\<rparr>)
   \<and> CreateCalled (remote (snd (Reconcile fake_client MockProvider_impl namespacedName
        (test_world test_issue test_secret)))) = 0
   \<and> remote_calls (trace (snd (Reconcile fake_client MockProvider_impl namespacedName
        (snd (Reconcile fake_client MockProvider_impl namespacedName
           (test_world test_issue test_secret))))))
      = [Call_Create ''fake-token'' (create_input test_issue)]
   \<and> CreateCalled (remote (snd (Reconcile fake_client MockProvider_impl namespacedName
        (snd (Reconcile fake_client MockProvider_impl namespacedName
           (test_world test_issue test_secret)))))) = 1"
proof -
  let ?w = "test_world test_issue test_secret"
  let ?issue2 = "test_issue\<lparr>Finalizers := [githubIssueFinalizer]\<rparr>"
  let ?s1 = "test_cluster ?issue2 test_secret"
  have add: "AddFinalizer test_issue githubIssueFinalizer = ?issue2"
    by (simp add: AddFinalizer_def test_issue_def)
  have a: "client_Get fake_client namespacedName (cluster ?w) = Inr test_issue"
    by (simp add: fake_defs test_defs)
  have b: "client_Get_Secret fake_client (secret_key test_issue) (cluster ?w) = Inr test_secret"
    by (simp add: fake_defs test_defs)
  have c: "Data test_secret ''token'' = Some ''fake-token''"
    by (simp add: test_secret_def)
  have d: "\<not> ContainsFinalizer test_issue githubIssueFinalizer"
    by (simp add: ContainsFinalizer_def test_issue_def)
  have e: "IssueNumber (Status test_issue) = 0"
    by (simp add: test_issue_def)
  have f: "IsZero (DeletionTimestamp test_issue)"
    by (simp add: IsZero_def test_issue_def)
  have g: "client_Update fake_client (AddFinalizer test_issue githubIssueFinalizer) (cluster ?w)
             = (None, ?s1)"
    by (simp add: add) (simp add: fake_defs test_defs IsZero_def githubIssueFinalizer_def)
  have h: "client_Get fake_client namespacedName ?s1 = Inr ?issue2"
    by (simp add: fake_defs test_defs)
  have i: "client_Get_Secret fake_client (secret_key ?issue2) ?s1 = Inr test_secret"
    by (simp add: fake_defs test_defs)
  have j: "ContainsFinalizer ?issue2 githubIssueFinalizer"
    by (simp add: ContainsFinalizer_def)
  have k: "IssueNumber (Status ?issue2) = 0"
    by (simp add: test_issue_def)
  have l: "IsZero (DeletionTimestamp ?issue2)"
    by (simp add: IsZero_def test_issue_def)
  note t = finalizer_precedes_Create [where r = fake_client and ip = MockProvider_impl,
      OF a b c d e f g h i c j k l]
  have m: "create_input ?issue2 = create_input test_issue"
    by (simp add: create_input_def)
  have n: "CreateCalled (snd (Create MockProvider_impl ''fake-token'' (create_input test_issue)
             NewMockProvider)) = 1"
    by (simp add: mock_defs Let_def)
  from t have r1: "Reconcile fake_client MockProvider_impl namespacedName ?w
      = ((requeue_now, None),
         ?w\<lparr>cluster := ?s1,
           trace := trace ?w @ [Write_Update (AddFinalizer test_issue githubIssueFinalizer)]\<rparr>)"
    by (rule conjunct1)
  from t have r5: "remote_calls (trace (snd (Reconcile fake_client MockProvider_impl
        namespacedName (snd (Reconcile fake_client MockProvider_impl namespacedName ?w)))))
      = remote_calls (trace ?w) @ [Call_Create ''fake-token'' (create_input ?issue2)]"
    by blast
  from t have r6: "remote (snd (Reconcile fake_client MockProvider_impl
        namespacedName (snd (Reconcile fake_client MockProvider_impl namespacedName ?w))))
      = snd (Create MockProvider_impl ''fake-token'' (create_input ?issue2) (remote ?w))"
    by blast
  have c1: "Reconcile fake_client MockProvider_impl namespacedName ?w
     = ((requeue_now, None),
        \<lparr>cluster = ?s1, remote = NewMockProvider, trace = [Write_Update ?issue2]\<rparr>)"
    unfolding r1 by (simp add: add test_world_def)
  have c2: "CreateCalled (remote (snd (Reconcile fake_client MockProvider_impl
      namespacedName ?w))) = 0"
    unfolding r1 by (simp add: test_world_def NewMockProvider_def)
  have c3: "remote_calls (trace (snd (Reconcile fake_client MockProvider_impl
        namespacedName (snd (Reconcile fake_client MockProvider_impl namespacedName ?w)))))
      = [Call_Create ''fake-token'' (create_input test_issue)]"
    unfolding r5 by (simp add: m test_world_def remote_calls_def)
  have c4: "CreateCalled (remote (snd (Reconcile fake_client MockProvider_impl
        namespacedName (snd (Reconcile fake_client MockProvider_impl namespacedName ?w))))) = 1"
    unfolding r6 using n by (simp add: m test_world_def)
  from c1 c2 c3 c4 show ?thesis
    by (intro conjI)
qed

subsection \<open>The sync of an issue that needs nothing\<close>

lemma sync_step_in_sync:
  assumes "Get ip token (Repo (Spec issue)) (IssueNumber (Status issue)) (remote w)
             = (Inr current, p)"
    and "State current = ''open''"
    and "Title current = spec_Title (Spec issue)"
    and "Body current = spec_Body (Spec issue)"
    and "labelsMatch (Labels current) (spec_Labels (Spec issue))"
  shows "Reconcile_sync r ip token issue w
     = sync_status r issue current
         (w\<lparr>remote := p,
            trace := trace w
              @ [Call_Get token (Repo (Spec issue)) (IssueNumber (Status issue))]\<rparr>)"
  using assms
  by (simp add: Reconcile_sync_def call_Get_def sync_reopen_def sync_push_def)

lemma sync_status_remote:
  "remote (snd (sync_status r issue current w)) = remote w"
  "remote_calls (trace (snd (sync_status r issue current w))) = remote_calls (trace w)"
  by (auto simp: sync_status_def write_Status_Update_def remote_calls_def
      split: prod.splits option.splits)

lemma sync_status_done:
  assumes "status_State (Status issue) = State current
           \<or> fst (client_Status_Update r
                    (issue\<lparr>Status := (Status issue)\<lparr>status_State := State current\<rparr>\<rparr>)
                    (cluster w)) = None"
  shows "fst (sync_status r issue current w) = (requeue_after (5 * Minute), None)"
  using assms
  by (auto simp: sync_status_def write_Status_Update_def split: prod.splits option.splits)

text \<open>
  C8 (as stated, refuted).  The claim reads: for every GitHubIssue whose title, body and
  label set match the remote resource and whose remote state is open, Reconcile issues no
  Update call and returns the requeue after five minutes with a nil error.
  First run: the synced issue of the test suite with the spec's labels written as
  \<open>[bug, bug]\<close>, against the mock holding the issue with the labels \<open>[bug]\<close>.  Title
  and body are equal, the remote state is open, the two label lists denote the same set;
  labelsMatch returns false on them, and Reconcile calls Update after the Get.
  Second run: the synced issue with the recorded state \<open>closed\<close>, the remote issue
  open and equal in title, body and labels, on a cluster that refuses the status write.
  Reconcile makes the Get as its only call to the provider and returns the error of the
  write, with the empty result.
\<close>

theorem in_sync_label_sets_counterexample:
  "fst (Get MockProvider_impl ''fake-token'' ''owner/repo'' 1 mock_with_issue)
     = Inr \<lparr>Number = 1, URL = ''https://github.com/owner/repo/issues/1'', State = ''open'',
            Title = ''Test Issue'', Body = ''This is a test issue'', Labels = Some [''bug'']\<rparr>
   \<and> spec_Title (Spec synced_issue) = ''Test Issue''
   \<and> spec_Body (Spec synced_issue) = ''This is a test issue''
   \<and> set (elems (Some [''bug''])) = set (elems (Some [''bug'', ''bug'']))
   \<and> remote_calls (trace (snd (Reconcile fake_client MockProvider_impl namespacedName
        ((test_world
            (synced_issue\<lparr>Spec := (Spec synced_issue)\<lparr>spec_Labels := Some [''bug'', ''bug'']\<rparr>\<rparr>)
            test_secret)\<lparr>remote := mock_with_issue\<rparr>))))
     = [Call_Get ''fake-token'' ''owner/repo'' 1,
        Call_Update ''fake-token'' ''owner/repo'' 1
          \<lparr>upd_Title = ''Test Issue'', upd_Body = ''This is a test issue'',
           upd_Labels = Some [''bug'', ''bug'']\<rparr>]
   \<and> UpdateCalled (remote (snd (Reconcile fake_client MockProvider_impl namespacedName
        ((test_world
            (synced_issue\<lparr>Spec := (Spec synced_issue)\<lparr>spec_Labels := Some [''bug'', ''bug'']\<rparr>\<rparr>)
            test_secret)\<lparr>remote := mock_with_issue\<rparr>)))) = 1
   \<and> spec_Labels (Spec synced_issue) = Some [''bug'']
   \<and> Reconcile
        (fake_client\<lparr>client_Status_Update := \<lambda>issue s. (Some (Failure ''conflict''), s)\<rparr>)
        MockProvider_impl namespacedName
        ((test_world
            (synced_issue\<lparr>Status := (Status synced_issue)\<lparr>status_State := ''closed''\<rparr>\<rparr>)
            test_secret)\<lparr>remote := mock_with_issue\<rparr>)
     = ((\<lparr>Requeue = False, RequeueAfter = 0\<rparr>, Some (Failure ''conflict'')),
        \<lparr>cluster = test_cluster
            (synced_issue\<lparr>Status := (Status synced_issue)\<lparr>status_State := ''closed''\<rparr>\<rparr>)
            test_secret,
         remote = mock_with_issue\<lparr>GetCalled := 1\<rparr>,
         trace = [Call_Get ''fake-token'' ''owner/repo'' 1, Write_Status_Update synced_issue]\<rparr>)"
proof -
  let ?dup = "synced_issue\<lparr>Spec := (Spec synced_issue)\<lparr>spec_Labels := Some [''bug'', ''bug'']\<rparr>\<rparr>"
  let ?w = "(test_world ?dup test_secret)\<lparr>remote := mock_with_issue\<rparr>"
  let ?stale = "synced_issue\<lparr>Status := (Status synced_issue)\<lparr>status_State := ''closed''\<rparr>\<rparr>"
  let ?v = "(test_world ?stale test_secret)\<lparr>remote := mock_with_issue\<rparr>"
  let ?refusing = "fake_client\<lparr>client_Status_Update :=
                     \<lambda>issue s. (Some (Failure ''conflict''), s)\<rparr>"
  have c: "Data test_secret ''token'' = Some ''fake-token''"
    by (simp add: test_secret_def)
  have a: "client_Get fake_client namespacedName (cluster ?w) = Inr ?dup"
    by (simp add: fake_defs test_defs)
  have b: "client_Get_Secret fake_client (secret_key ?dup) (cluster ?w) = Inr test_secret"
    by (simp add: fake_defs test_defs synced_issue_def)
  have d: "IsZero (DeletionTimestamp ?dup)"
    "ContainsFinalizer ?dup githubIssueFinalizer"
    "IssueNumber (Status ?dup) \<noteq> 0"
    by (simp_all add: IsZero_def ContainsFinalizer_def synced_issue_def test_issue_def)
  have s1: "Reconcile fake_client MockProvider_impl namespacedName ?w
              = Reconcile_sync fake_client MockProvider_impl ''fake-token'' ?dup ?w"
    using d by (simp add: Reconcile_steps [where r = fake_client, OF a b c])
  have s2: "snd (Reconcile_sync fake_client MockProvider_impl ''fake-token'' ?dup ?w)
      = \<lparr>cluster = test_cluster ?dup test_secret,
         remote = mock_with_issue
           \<lparr>GetCalled := 1, UpdateCalled := 1,
            issues := [''owner/repo#1'' \<mapsto>
               \<lparr>Number = 1, URL = ''https://github.com/owner/repo/issues/1'',
                State = ''open'', Title = ''Test Issue'', Body = ''This is a test issue'',
                Labels = Some [''bug'', ''bug'']\<rparr>]\<rparr>,
         trace = [Call_Get ''fake-token'' ''owner/repo'' 1,
                  Call_Update ''fake-token'' ''owner/repo'' 1
                    \<lparr>upd_Title = ''Test Issue'', upd_Body = ''This is a test issue'',
                     upd_Labels = Some [''bug'', ''bug'']\<rparr>]\<rparr>"
    by (simp add: Reconcile_sync_def call_Get_def sync_reopen_def sync_push_def call_Update_def
        sync_status_def mock_defs mock_with_issue_def create_input_def synced_issue_def
        test_defs labelsMatch_def len_def elems_def Let_def)
  have a': "client_Get ?refusing namespacedName (cluster ?v) = Inr ?stale"
    by (simp add: fake_defs test_defs)
  have b': "client_Get_Secret ?refusing (secret_key ?stale) (cluster ?v) = Inr test_secret"
    by (simp add: fake_defs test_defs synced_issue_def)
  have d': "IsZero (DeletionTimestamp ?stale)"
    "ContainsFinalizer ?stale githubIssueFinalizer"
    "IssueNumber (Status ?stale) \<noteq> 0"
    by (simp_all add: IsZero_def ContainsFinalizer_def synced_issue_def test_issue_def)
  have s1': "Reconcile ?refusing MockProvider_impl namespacedName ?v
              = Reconcile_sync ?refusing MockProvider_impl ''fake-token'' ?stale ?v"
    using d' by (simp add: Reconcile_steps [where r = ?refusing, OF a' b' c])
  have s2': "Reconcile_sync ?refusing MockProvider_impl ''fake-token'' ?stale ?v
      = ((\<lparr>Requeue = False, RequeueAfter = 0\<rparr>, Some (Failure ''conflict'')),
         \<lparr>cluster = test_cluster ?stale test_secret,
          remote = mock_with_issue\<lparr>GetCalled := 1\<rparr>,
          trace = [Call_Get ''fake-token'' ''owner/repo'' 1,
                   Write_Status_Update synced_issue]\<rparr>)"
    by (simp add: Reconcile_sync_def call_Get_def sync_reopen_def sync_push_def
        sync_status_def write_Status_Update_def mock_defs mock_with_issue_def create_input_def
        synced_issue_def test_defs labelsMatch_iff_mset elems_def Let_def no_requeue_def)
  have g: "fst (Get MockProvider_impl ''fake-token'' ''owner/repo'' 1 mock_with_issue)
     = Inr \<lparr>Number = 1, URL = ''https://github.com/owner/repo/issues/1'', State = ''open'',
            Title = ''Test Issue'', Body = ''This is a test issue'', Labels = Some [''bug'']\<rparr>"
    by (simp add: mock_defs mock_with_issue_def create_input_def test_issue_def Let_def)
  have sp: "spec_Title (Spec synced_issue) = ''Test Issue''"
    "spec_Body (Spec synced_issue) = ''This is a test issue''"
    "spec_Labels (Spec synced_issue) = Some [''bug'']"
    by (simp_all add: synced_issue_def test_issue_def)
  have sets: "set (elems (Some [''bug''])) = set (elems (Some [''bug'', ''bug'']))"
    by (simp add: elems_def)
  have calls: "remote_calls (trace (snd (Reconcile fake_client MockProvider_impl
        namespacedName ?w)))
     = [Call_Get ''fake-token'' ''owner/repo'' 1,
        Call_Update ''fake-token'' ''owner/repo'' 1
          \<lparr>upd_Title = ''Test Issue'', upd_Body = ''This is a test issue'',
           upd_Labels = Some [''bug'', ''bug'']\<rparr>]"
    unfolding s1 s2 by (simp add: remote_calls_def)
  have count: "UpdateCalled (remote (snd (Reconcile fake_client MockProvider_impl
        namespacedName ?w))) = 1"
    unfolding s1 s2 by simp
  have refused: "Reconcile ?refusing MockProvider_impl namespacedName ?v
     = ((\<lparr>Requeue = False, RequeueAfter = 0\<rparr>, Some (Failure ''conflict'')),
        \<lparr>cluster = test_cluster ?stale test_secret,
         remote = mock_with_issue\<lparr>GetCalled := 1\<rparr>,
         trace = [Call_Get ''fake-token'' ''owner/repo'' 1, Write_Status_Update synced_issue]\<rparr>)"
    unfolding s1' by (rule s2')
  from g sp sets calls count refused show ?thesis
    by (intro conjI)
qed

text \<open>
  C8 (amended).  For every GitHubIssue that is fetched with its token, is not being deleted,
  has the finalizer and a non-zero issue number, and is in sync with its remote resource
  (the provider's Get returns an issue whose state is open, whose title and body equal the
  spec's, and whose labels are the spec's labels with the same multiplicities, in any
  order, which is what labelsMatch tests): a Reconcile invocation makes exactly one call to
  the provider, the Get, hence no Update and no Reopen call; and it returns the requeue
  after five minutes with a nil error when the recorded state is open already or the
  write that records it succeeds.
\<close>

theorem in_sync_makes_no_Update_or_Reopen:
  assumes "client_Get r req (cluster w) = Inr issue"
    and "client_Get_Secret r (secret_key issue) (cluster w) = Inr secret"
    and "Data secret ''token'' = Some token"
    and "IsZero (DeletionTimestamp issue)"
    and "ContainsFinalizer issue githubIssueFinalizer"
    and "IssueNumber (Status issue) \<noteq> 0"
    and "Get ip token (Repo (Spec issue)) (IssueNumber (Status issue)) (remote w)
           = (Inr current, p)"
    and "State current = ''open''"
    and "Title current = spec_Title (Spec issue)"
    and "Body current = spec_Body (Spec issue)"
    and "mset (elems (Labels current)) = mset (elems (spec_Labels (Spec issue)))"
  shows
    "remote_calls (trace (snd (Reconcile r ip req w)))
       = remote_calls (trace w)
         @ [Call_Get token (Repo (Spec issue)) (IssueNumber (Status issue))]
     \<and> remote (snd (Reconcile r ip req w)) = p
     \<and> (status_State (Status issue) = ''open''
          \<or> fst (client_Status_Update r
                   (issue\<lparr>Status := (Status issue)\<lparr>status_State := ''open''\<rparr>\<rparr>)
                   (cluster w)) = None
        \<longrightarrow> fst (Reconcile r ip req w)
              = (\<lparr>Requeue = False, RequeueAfter = 5 * Minute\<rparr>, None))"
proof -
  let ?w1 = "w\<lparr>remote := p,
               trace := trace w
                 @ [Call_Get token (Repo (Spec issue)) (IssueNumber (Status issue))]\<rparr>"
  have labels: "labelsMatch (Labels current) (spec_Labels (Spec issue))"
    using assms(11) by (simp add: labelsMatch_iff_mset)
  have "Reconcile r ip req w = Reconcile_sync r ip token issue w"
    using assms(1-6) by (simp add: Reconcile_steps [where r = r])
  then have eq: "Reconcile r ip req w = sync_status r issue current ?w1"
    using assms(7-10) labels by (simp add: sync_step_in_sync)
  have calls: "remote_calls (trace (snd (Reconcile r ip req w)))
       = remote_calls (trace w)
         @ [Call_Get token (Repo (Spec issue)) (IssueNumber (Status issue))]"
    and left: "remote (snd (Reconcile r ip req w)) = p"
    unfolding eq by (simp_all add: sync_status_remote) (simp add: remote_calls_def)
  {
    assume "status_State (Status issue) = ''open''
          \<or> fst (client_Status_Update r
                   (issue\<lparr>Status := (Status issue)\<lparr>status_State := ''open''\<rparr>\<rparr>)
                   (cluster w)) = None"
    with assms(8) have "status_State (Status issue) = State current
           \<or> fst (client_Status_Update r
                    (issue\<lparr>Status := (Status issue)\<lparr>status_State := State current\<rparr>\<rparr>)
                    (cluster ?w1)) = None"
      by simp
    from sync_status_done [OF this] eq
    have "fst (Reconcile r ip req w) = (\<lparr>Requeue = False, RequeueAfter = 5 * Minute\<rparr>, None)"
      by (simp add: requeue_after_def)
  }
  with calls left show ?thesis
    by blast
qed

theorem in_sync_makes_no_Update_or_Reopen_witness:
  "fst (Reconcile fake_client MockProvider_impl namespacedName
          ((test_world
              (synced_issue\<lparr>Spec := (Spec synced_issue)\<lparr>spec_Labels := Some [''ui'', ''bug'']\<rparr>\<rparr>)
              test_secret)
             \<lparr>remote := snd (MockProvider_Create ''fake-token''
                  \<lparr>in_Repo = ''owner/repo'', in_Title = ''Test Issue'',
                   in_Body = ''This is a test issue'', in_Labels = Some [''bug'', ''ui'']\<rparr>
                  NewMockProvider)\<rparr>))
     = (\<lparr>Requeue = False, RequeueAfter = 300000000000\<rparr>, None)
   \<and> remote_calls (trace (snd (Reconcile fake_client MockProvider_impl namespacedName
          ((test_world
              (synced_issue\<lparr>Spec := (Spec synced_issue)\<lparr>spec_Labels := Some [''ui'', ''bug'']\<rparr>\<rparr>)
              test_secret)
             \<lparr>remote := snd (MockProvider_Create ''fake-token''
                  \<lparr>in_Repo = ''owner/repo'', in_Title = ''Test Issue'',
                   in_Body = ''This is a test issue'', in_Labels = Some [''bug'', ''ui'']\<rparr>
                  NewMockProvider)\<rparr>))))
     = [Call_Get ''fake-token'' ''owner/repo'' 1]
   \<and> UpdateCalled (remote (snd (Reconcile fake_client MockProvider_impl namespacedName
          ((test_world
              (synced_issue\<lparr>Spec := (Spec synced_issue)\<lparr>spec_Labels := Some [''ui'', ''bug'']\<rparr>\<rparr>)
              test_secret)
             \<lparr>remote := snd (MockProvider_Create ''fake-token''
                  \<lparr>in_Repo = ''owner/repo'', in_Title = ''Test Issue'',
                   in_Body = ''This is a test issue'', in_Labels = Some [''bug'', ''ui'']\<rparr>
                  NewMockProvider)\<rparr>)))) = 0"
proof -
  let ?issue = "synced_issue\<lparr>Spec := (Spec synced_issue)\<lparr>spec_Labels := Some [''ui'', ''bug'']\<rparr>\<rparr>"
  let ?mock = "snd (MockProvider_Create ''fake-token''
                  \<lparr>in_Repo = ''owner/repo'', in_Title = ''Test Issue'',
                   in_Body = ''This is a test issue'', in_Labels = Some [''bug'', ''ui'']\<rparr>
                  NewMockProvider)"
  let ?w = "(test_world ?issue test_secret)\<lparr>remote := ?mock\<rparr>"
  let ?current = "\<lparr>Number = 1, URL = ''https://github.com/owner/repo/issues/1'',
                    State = ''open'', Title = ''Test Issue'', Body = ''This is a test issue'',
                    Labels = Some [''bug'', ''ui'']\<rparr>"
  have a: "client_Get fake_client namespacedName (cluster ?w) = Inr ?issue"
    by (simp add: fake_defs test_defs)
  have b: "client_Get_Secret fake_client (secret_key ?issue) (cluster ?w) = Inr test_secret"
    by (simp add: fake_defs test_defs synced_issue_def)
  have c: "Data test_secret ''token'' = Some ''fake-token''"
    by (simp add: test_secret_def)
  have d: "IsZero (DeletionTimestamp ?issue)"
    by (simp add: IsZero_def synced_issue_def test_issue_def)
  have e: "ContainsFinalizer ?issue githubIssueFinalizer"
    by (simp add: ContainsFinalizer_def synced_issue_def)
  have f: "IssueNumber (Status ?issue) \<noteq> 0"
    by (simp add: synced_issue_def)
  have g: "Get MockProvider_impl ''fake-token'' (Repo (Spec ?issue))
             (IssueNumber (Status ?issue)) (remote ?w)
           = (Inr ?current, ?mock\<lparr>GetCalled := 1\<rparr>)"
    by (simp add: mock_defs synced_issue_def test_defs Let_def)
  have h: "State ?current = ''open''"
    by simp
  have i: "Title ?current = spec_Title (Spec ?issue)"
    and j: "Body ?current = spec_Body (Spec ?issue)"
    by (simp_all add: synced_issue_def test_issue_def)
  have k: "mset (elems (Labels ?current)) = mset (elems (spec_Labels (Spec ?issue)))"
    by (simp add: elems_def)
  have l: "status_State (Status ?issue) = ''open''
         \<or> fst (client_Status_Update fake_client
                  (?issue\<lparr>Status := (Status ?issue)\<lparr>status_State := ''open''\<rparr>\<rparr>)
                  (cluster ?w)) = None"
    by (simp add: synced_issue_def)
  note t = in_sync_makes_no_Update_or_Reopen [where r = fake_client
      and ip = MockProvider_impl, OF a b c d e f g h i j k]
  from t l have r1: "fst (Reconcile fake_client MockProvider_impl namespacedName ?w)
      = (\<lparr>Requeue = False, RequeueAfter = 5 * Minute\<rparr>, None)"
    by blast
  from t have r2: "remote_calls (trace (snd (Reconcile fake_client MockProvider_impl
        namespacedName ?w)))
      = remote_calls (trace ?w)
        @ [Call_Get ''fake-token'' (Repo (Spec ?issue)) (IssueNumber (Status ?issue))]"
    by blast
  from t have r3: "remote (snd (Reconcile fake_client MockProvider_impl namespacedName ?w))
      = ?mock\<lparr>GetCalled := 1\<rparr>"
    by blast
  show ?thesis
    unfolding r1 r2 r3
    by (simp add: Minute_def Second_def test_world_def remote_calls_def synced_issue_def
        test_issue_def mock_defs Let_def)
qed

subsection \<open>What one reconciliation writes\<close>

lemma written_append: "written (t @ u) = written t @ written u"
  by (induction t rule: written.induct) simp_all

lemma replay_append: "replay r (t @ u) s = replay r u (replay r t s)"
  by (induction r t s rule: replay.induct) simp_all

lemma logged_refl: "logged r w w"
  by (simp add: logged_def)

lemma loggedI:
  "trace w' = trace w @ xs \<Longrightarrow> cluster w' = replay r xs (cluster w) \<Longrightarrow> logged r w w'"
  by (simp add: logged_def)

lemma loggedE:
  assumes "logged r w w'"
  obtains xs where "trace w' = trace w @ xs" and "cluster w' = replay r xs (cluster w)"
proof -
  from assms have "trace w' = trace w @ drop (length (trace w)) (trace w')"
    by (metis append_take_drop_id logged_def)
  moreover from assms
  have "cluster w' = replay r (drop (length (trace w)) (trace w')) (cluster w)"
    by (simp add: logged_def)
  ultimately show thesis
    by (rule that)
qed

lemma logged_trans:
  assumes "logged r w w1" and "logged r w1 w2"
  shows "logged r w w2"
proof -
  from assms(1) obtain xs
    where 1: "trace w1 = trace w @ xs" "cluster w1 = replay r xs (cluster w)"
    by (rule loggedE)
  from assms(2) obtain ys
    where 2: "trace w2 = trace w1 @ ys" "cluster w2 = replay r ys (cluster w1)"
    by (rule loggedE)
  from 1 2 have "trace w2 = trace w @ (xs @ ys)" "cluster w2 = replay r (xs @ ys) (cluster w)"
    by (simp_all add: replay_append)
  then show ?thesis
    by (rule loggedI)
qed

lemma logged_call_Get: "logged r w (snd (call_Get ip token repo n w))"
  by (simp add: logged_def call_Get_def split: prod.splits)

lemma logged_call_Update: "logged r w (snd (call_Update ip token repo n input w))"
  by (simp add: logged_def call_Update_def split: prod.splits)

lemma logged_call_Reopen: "logged r w (snd (call_Reopen ip token repo n w))"
  by (simp add: logged_def call_Reopen_def split: prod.splits)

lemma logged_write_Status_Update: "logged r w (snd (write_Status_Update r issue w))"
  by (simp add: logged_def write_Status_Update_def split: prod.splits)

lemma logged_sync_reopen:
  "logged r w (case sync_reopen ip token issue c w of Inl w' \<Rightarrow> w' | Inr (c', w') \<Rightarrow> w')"
  using logged_call_Reopen [of r w ip token "Repo (Spec issue)" "IssueNumber (Status issue)"]
  by (auto simp: sync_reopen_def logged_refl split: prod.splits option.splits)

lemma logged_sync_push:
  "logged r w (case sync_push ip token issue c w of Inl w' \<Rightarrow> w' | Inr w' \<Rightarrow> w')"
  using logged_call_Update [of r w ip token "Repo (Spec issue)" "IssueNumber (Status issue)"
      "\<lparr>upd_Title = spec_Title (Spec issue), upd_Body = spec_Body (Spec issue),
        upd_Labels = spec_Labels (Spec issue)\<rparr>"]
  by (auto simp: sync_push_def logged_refl split: prod.splits sum.splits)

lemma logged_sync_status: "logged r w (snd (sync_status r issue c w))"
  using logged_write_Status_Update [of r w
      "issue\<lparr>Status := (Status issue)\<lparr>status_State := State c\<rparr>\<rparr>"]
  by (auto simp: sync_status_def logged_refl split: prod.splits option.splits)

lemma call_Get_trace:
  "call_Get ip token repo n w = (res, w') \<Longrightarrow> trace w' = trace w @ [Call_Get token repo n]"
  by (auto simp: call_Get_def split: prod.splits)

lemma sync_reopen_Inl:
  "sync_reopen ip token issue c w = Inl w'
     \<Longrightarrow> \<exists>xs. trace w' = trace w @ xs \<and> written xs = []"
  by (auto simp: sync_reopen_def call_Reopen_def split: if_splits prod.splits option.splits)

lemma sync_reopen_Inr:
  "sync_reopen ip token issue c w = Inr (c', w')
     \<Longrightarrow> \<exists>xs. trace w' = trace w @ xs \<and> written xs = []"
  by (auto simp: sync_reopen_def call_Reopen_def split: if_splits prod.splits option.splits)

lemma sync_push_Inl:
  "sync_push ip token issue c w = Inl w'
     \<Longrightarrow> \<exists>xs. trace w' = trace w @ xs \<and> written xs = []"
  by (auto simp: sync_push_def call_Update_def split: if_splits prod.splits sum.splits)

lemma sync_push_Inr:
  "sync_push ip token issue c w = Inr w'
     \<Longrightarrow> \<exists>xs. trace w' = trace w @ xs \<and> written xs = []"
  by (auto simp: sync_push_def call_Update_def split: if_splits prod.splits sum.splits)

lemma sync_status_trace:
  "\<exists>xs. trace (snd (sync_status r issue c w)) = trace w @ xs
        \<and> set (written xs) \<subseteq> {issue\<lparr>Status := (Status issue)\<lparr>status_State := State c\<rparr>\<rparr>}"
  by (auto simp: sync_status_def write_Status_Update_def split: prod.splits option.splits)

text \<open>
  The sync step, block by block: what it writes keeps the issue number, and its trace
  holds every write it made.
\<close>

lemma sync_writes_and_log:
  "(\<forall>ob \<in> set (new_writes w (snd (Reconcile_sync r ip token issue w))).
       IssueNumber (Status ob) = IssueNumber (Status issue))
   \<and> logged r w (snd (Reconcile_sync r ip token issue w))"
proof -
  obtain res w1
    where g: "call_Get ip token (Repo (Spec issue)) (IssueNumber (Status issue)) w = (res, w1)"
    by fastforce
  then have t1: "trace w1
      = trace w @ [Call_Get token (Repo (Spec issue)) (IssueNumber (Status issue))]"
    by (rule call_Get_trace)
  from g logged_call_Get [of r w ip token "Repo (Spec issue)" "IssueNumber (Status issue)"]
  have l1: "logged r w w1"
    by simp
  show ?thesis
  proof (cases res)
    case (Inl err)
    with g t1 l1 show ?thesis
      by (simp add: Reconcile_sync_def new_writes_def)
  next
    case fetched: (Inr fetched)
    show ?thesis
    proof (cases "sync_reopen ip token issue fetched w1")
      case (Inl w2)
      then obtain xs where "trace w2 = trace w1 @ xs" "written xs = []"
        using sync_reopen_Inl by blast
      moreover from Inl logged_sync_reopen [of r w1 ip token issue fetched]
      have "logged r w1 w2"
        by simp
      with l1 have "logged r w w2"
        by (rule logged_trans)
      ultimately show ?thesis
        using g fetched Inl t1
        by (simp add: Reconcile_sync_def new_writes_def written_append)
    next
      case (Inr cw)
      obtain c w2 where cw: "cw = (c, w2)"
        by (cases cw)
      with Inr obtain xs where t2: "trace w2 = trace w1 @ xs" "written xs = []"
        using sync_reopen_Inr by blast
      from Inr cw logged_sync_reopen [of r w1 ip token issue fetched]
      have "logged r w1 w2"
        by simp
      with l1 have l2: "logged r w w2"
        by (rule logged_trans)
      show ?thesis
      proof (cases "sync_push ip token issue c w2")
        case (Inl w3)
        then obtain ys where "trace w3 = trace w2 @ ys" "written ys = []"
          using sync_push_Inl by blast
        moreover from Inl logged_sync_push [of r w2 ip token issue c]
        have "logged r w2 w3"
          by simp
        with l2 have "logged r w w3"
          by (rule logged_trans)
        ultimately show ?thesis
          using g fetched Inr cw Inl t1 t2
          by (simp add: Reconcile_sync_def new_writes_def written_append)
      next
        case push: (Inr w3)
        then obtain ys where t3: "trace w3 = trace w2 @ ys" "written ys = []"
          using sync_push_Inr by blast
        from push logged_sync_push [of r w2 ip token issue c]
        have "logged r w2 w3"
          by simp
        with l2 have "logged r w w3"
          by (rule logged_trans)
        then have l4: "logged r w (snd (sync_status r issue c w3))"
          using logged_sync_status by (rule logged_trans)
        obtain zs where t4: "trace (snd (sync_status r issue c w3)) = trace w3 @ zs"
          "set (written zs) \<subseteq> {issue\<lparr>Status := (Status issue)\<lparr>status_State := State c\<rparr>\<rparr>}"
          using sync_status_trace by blast
        have eq: "Reconcile_sync r ip token issue w = sync_status r issue c w3"
          using g fetched Inr cw push by (simp add: Reconcile_sync_def)
        from t1 t2 t3 t4
        have "set (new_writes w (snd (sync_status r issue c w3)))
                \<subseteq> {issue\<lparr>Status := (Status issue)\<lparr>status_State := State c\<rparr>\<rparr>}"
          by (simp add: new_writes_def written_append)
        then have "\<forall>ob \<in> set (new_writes w (snd (sync_status r issue c w3))).
                     IssueNumber (Status ob) = IssueNumber (Status issue)"
          by auto
        with l4 eq show ?thesis
          by simp
      qed
    qed
  qed
qed

lemma deletion_writes:
  "set (new_writes w (snd (Reconcile_deletion r ip token issue w)))
     \<subseteq> {RemoveFinalizer issue githubIssueFinalizer}"
  by (simp add: new_writes_def Reconcile_deletion_def call_Close_def write_Update_def
      split: prod.splits option.splits)

lemma finalizer_writes:
  "set (new_writes w (snd (Reconcile_finalizer r issue w)))
     \<subseteq> {AddFinalizer issue githubIssueFinalizer}"
  by (simp add: new_writes_def Reconcile_finalizer_def write_Update_def
      split: prod.splits option.splits)

lemma create_writes:
  "new_writes w (snd (Reconcile_create r ip token issue w))
     = (case fst (Create ip token (create_input issue) (remote w)) of
          Inl err \<Rightarrow> []
        | Inr createdIssue \<Rightarrow>
            [issue\<lparr>Status := (Status issue)\<lparr>IssueNumber := Number createdIssue,
                                            IssueURL := URL createdIssue,
                                            status_State := State createdIssue\<rparr>\<rparr>])"
  by (simp add: new_writes_def Reconcile_create_def call_Create_def write_Status_Update_def
      create_input_def split: prod.splits sum.splits option.splits)

lemma IssueNumber_AddFinalizer:
  "IssueNumber (Status (AddFinalizer issue f)) = IssueNumber (Status issue)"
  by (simp add: AddFinalizer_def)

lemma IssueNumber_RemoveFinalizer:
  "IssueNumber (Status (RemoveFinalizer issue f)) = IssueNumber (Status issue)"
  by (simp add: RemoveFinalizer_def)

lemma logged_Reconcile_deletion: "logged r w (snd (Reconcile_deletion r ip token issue w))"
  by (simp add: logged_def Reconcile_deletion_def call_Close_def write_Update_def
      split: prod.splits option.splits)

lemma logged_Reconcile_finalizer: "logged r w (snd (Reconcile_finalizer r issue w))"
  by (simp add: logged_def Reconcile_finalizer_def write_Update_def
      split: prod.splits option.splits)

lemma logged_Reconcile_create: "logged r w (snd (Reconcile_create r ip token issue w))"
  by (simp add: logged_def Reconcile_create_def call_Create_def write_Status_Update_def
      split: prod.splits sum.splits option.splits)

lemma logged_Reconcile: "logged r w (snd (Reconcile r ip req w))"
  by (simp add: Reconcile_def Let_def logged_refl logged_Reconcile_deletion
      logged_Reconcile_finalizer logged_Reconcile_create sync_writes_and_log
      split: sum.splits option.splits)

lemma Reconcile_fetch_error:
  assumes "client_Get r req (cluster w) = Inl err"
  shows "snd (Reconcile r ip req w) = w"
  using assms by (simp add: Reconcile_def)

lemma Reconcile_cases:
  assumes "client_Get r req (cluster w) = Inr issue"
  shows "snd (Reconcile r ip req w) = w
       \<or> (\<exists>token. Reconcile r ip req w = Reconcile_deletion r ip token issue w)
       \<or> Reconcile r ip req w = Reconcile_finalizer r issue w
       \<or> (\<exists>token. IssueNumber (Status issue) = 0
             \<and> Reconcile r ip req w = Reconcile_create r ip token issue w)
       \<or> (\<exists>token. Reconcile r ip req w = Reconcile_sync r ip token issue w)"
  using assms
  by (auto simp: Reconcile_def Let_def split: sum.splits option.splits)

lemma written_IssueNumber:
  assumes "client_Get r req (cluster w) = Inr issue"
    and "ob \<in> set (new_writes w (snd (Reconcile r ip req w)))"
  shows "IssueNumber (Status ob) = IssueNumber (Status issue)
       \<or> (IssueNumber (Status issue) = 0
          \<and> (\<exists>token created.
                fst (Create ip token (create_input issue) (remote w)) = Inr created
                \<and> IssueNumber (Status ob) = Number created))"
proof -
  from Reconcile_cases [where r = r and ip = ip, OF assms(1)]
  consider "snd (Reconcile r ip req w) = w"
    | token where "Reconcile r ip req w = Reconcile_deletion r ip token issue w"
    | "Reconcile r ip req w = Reconcile_finalizer r issue w"
    | token where "IssueNumber (Status issue) = 0"
        "Reconcile r ip req w = Reconcile_create r ip token issue w"
    | token where "Reconcile r ip req w = Reconcile_sync r ip token issue w"
    by blast
  then show ?thesis
  proof cases
    case 1
    with assms(2) show ?thesis
      by (simp add: new_writes_def)
  next
    case 2
    with assms(2) deletion_writes [of w r ip token issue] show ?thesis
      by (auto simp: IssueNumber_RemoveFinalizer)
  next
    case 3
    with assms(2) finalizer_writes [of w r issue] show ?thesis
      by (auto simp: IssueNumber_AddFinalizer)
  next
    case 4
    show ?thesis
    proof (cases "fst (Create ip token (create_input issue) (remote w))")
      case (Inl err)
      with 4 assms(2) show ?thesis
        by (simp add: create_writes)
    next
      case (Inr created)
      with 4 assms(2) have "IssueNumber (Status ob) = Number created"
        by (simp add: create_writes)
      with 4(1) Inr show ?thesis
        by blast
    qed
  next
    case 5
    with assms(2) sync_writes_and_log [of w r ip token issue] show ?thesis
      by simp
  qed
qed

lemma keeps_fake_Update: "keeps n req s \<Longrightarrow> keeps n req (snd (fake_Update ob s))"
  by (auto simp: keeps_def fake_Update_def Let_def split: option.splits)

lemma keeps_fake_Status_Update:
  "keeps n req s \<Longrightarrow> IssueNumber (Status ob) = n
     \<Longrightarrow> keeps n req (snd (fake_Status_Update ob s))"
  by (auto simp: keeps_def fake_Status_Update_def Let_def split: option.splits)

lemma keeps_replay:
  "keeps n req s \<Longrightarrow> \<forall>ob \<in> set (written xs). IssueNumber (Status ob) = n
     \<Longrightarrow> keeps n req (replay fake_client xs s)"
proof (induction fake_client xs s rule: replay.induct)
  case (1 s)
  then show ?case by simp
next
  case (2 issue t s)
  then show ?case
    by (simp add: fake_client_def keeps_fake_Update)
next
  case (3 issue t s)
  then show ?case
    by (simp add: fake_client_def keeps_fake_Status_Update)
qed simp_all

lemma fake_cluster_keeps_IssueNumber:
  fixes fw :: "(FakeCluster, 'p) world"
  assumes "objects (cluster fw) req = Some stored"
    and "IssueNumber (Status stored) \<noteq> 0"
  shows "keeps (IssueNumber (Status stored)) req
           (cluster (snd (Reconcile fake_client ip req fw)))"
proof -
  let ?fw' = "snd (Reconcile fake_client ip req fw)"
  from assms(1) have fetch: "client_Get fake_client req (cluster fw) = Inr stored"
    by (simp add: fake_client_def fake_Get_def)
  have "\<forall>ob \<in> set (new_writes fw ?fw'). IssueNumber (Status ob) = IssueNumber (Status stored)"
    using written_IssueNumber [where r = fake_client and ip = ip, OF fetch] assms(2)
    by blast
  moreover from assms(1) have "keeps (IssueNumber (Status stored)) req (cluster fw)"
    by (simp add: keeps_def)
  moreover have "logged fake_client fw ?fw'"
    by (rule logged_Reconcile)
  ultimately show ?thesis
    by (simp add: logged_def new_writes_def keeps_replay)
qed

text \<open>
  C7.  The issue number recorded on a GitHubIssue stays zero until the remote Create
  succeeds, and a recorded non-zero number is never written back to zero.
  For one Reconcile invocation, against any client and any provider:
  if the fetch of the object fails, nothing is written;
  if it fetched the object, every object it writes, by Update or by Status().Update,
  carries the issue number that was fetched, with one exception, the status write after
  a Create call that succeeded in this invocation, made only when the fetched number was
  zero, which carries the number of the created issue;
  the cluster changes by these writes and by nothing else.
  On the in-memory cluster, an object recorded with a non-zero issue number is, after a
  Reconcile invocation for it, either gone or recorded with the same number.
\<close>

theorem IssueNumber_never_reset:
  fixes w :: "('s, 'p) world" and fw :: "(FakeCluster, 'q) world"
  shows
    "(client_Get r req (cluster w) = Inl err \<longrightarrow> snd (Reconcile r ip req w) = w)
     \<and> (client_Get r req (cluster w) = Inr issue
          \<and> ob \<in> set (new_writes w (snd (Reconcile r ip req w)))
        \<longrightarrow> (IssueNumber (Status issue) \<noteq> 0
               \<longrightarrow> IssueNumber (Status ob) = IssueNumber (Status issue))
            \<and> (IssueNumber (Status ob) \<noteq> IssueNumber (Status issue)
               \<longrightarrow> IssueNumber (Status issue) = 0
                  \<and> (\<exists>token created.
                        fst (Create ip token (create_input issue) (remote w)) = Inr created
                        \<and> IssueNumber (Status ob) = Number created)))
     \<and> cluster (snd (Reconcile r ip req w))
         = replay r (drop (length (trace w)) (trace (snd (Reconcile r ip req w)))) (cluster w)
     \<and> (objects (cluster fw) req = Some stored \<and> IssueNumber (Status stored) \<noteq> 0
        \<longrightarrow> (case objects (cluster (snd (Reconcile fake_client iq req fw))) req of
               None \<Rightarrow> True
             | Some stored' \<Rightarrow> IssueNumber (Status stored') = IssueNumber (Status stored)))"
proof (intro conjI impI)
  assume "client_Get r req (cluster w) = Inl err"
  then show "snd (Reconcile r ip req w) = w"
    by (rule Reconcile_fetch_error)
next
  assume a: "client_Get r req (cluster w) = Inr issue
          \<and> ob \<in> set (new_writes w (snd (Reconcile r ip req w)))"
  note d = written_IssueNumber [where r = r and ip = ip and ob = ob and issue = issue
      and w = w and req = req]
  {
    assume "IssueNumber (Status issue) \<noteq> 0"
    with a d show "IssueNumber (Status ob) = IssueNumber (Status issue)"
      by blast
  next
    assume n: "IssueNumber (Status ob) \<noteq> IssueNumber (Status issue)"
    with a d show "IssueNumber (Status issue) = 0"
      by blast
    from n a d show "\<exists>token created.
        fst (Create ip token (create_input issue) (remote w)) = Inr created
        \<and> IssueNumber (Status ob) = Number created"
      by blast
  }
next
  show "cluster (snd (Reconcile r ip req w))
         = replay r (drop (length (trace w)) (trace (snd (Reconcile r ip req w)))) (cluster w)"
    using logged_Reconcile [of r w ip req] by (simp add: logged_def)
next
  assume "objects (cluster fw) req = Some stored \<and> IssueNumber (Status stored) \<noteq> 0"
  then have "keeps (IssueNumber (Status stored)) req
               (cluster (snd (Reconcile fake_client iq req fw)))"
    by (simp add: fake_cluster_keeps_IssueNumber)
  then show "case objects (cluster (snd (Reconcile fake_client iq req fw))) req of
               None \<Rightarrow> True
             | Some stored' \<Rightarrow> IssueNumber (Status stored') = IssueNumber (Status stored)"
    by (simp add: keeps_def)
qed

theorem IssueNumber_never_reset_witness:
  "new_writes
      ((test_world (synced_issue\<lparr>Status := (Status synced_issue)\<lparr>status_State := ''closed''\<rparr>\<rparr>)
          test_secret)\<lparr>remote := mock_with_issue\<rparr>)
      (snd (Reconcile fake_client MockProvider_impl namespacedName
         ((test_world (synced_issue\<lparr>Status := (Status synced_issue)\<lparr>status_State := ''closed''\<rparr>\<rparr>)
             test_secret)\<lparr>remote := mock_with_issue\<rparr>)))
     = [synced_issue]
   \<and> IssueNumber (Status synced_issue) = 1
   \<and> objects (cluster (snd (Reconcile fake_client MockProvider_impl namespacedName
         ((test_world (synced_issue\<lparr>Status := (Status synced_issue)\<lparr>status_State := ''closed''\<rparr>\<rparr>)
             test_secret)\<lparr>remote := mock_with_issue\<rparr>)))) namespacedName
     = Some synced_issue"
proof -
  let ?stale = "synced_issue\<lparr>Status := (Status synced_issue)\<lparr>status_State := ''closed''\<rparr>\<rparr>"
  let ?w = "(test_world ?stale test_secret)\<lparr>remote := mock_with_issue\<rparr>"
  let ?current = "\<lparr>Number = 1, URL = ''https://github.com/owner/repo/issues/1'',
                    State = ''open'', Title = ''Test Issue'', Body = ''This is a test issue'',
                    Labels = Some [''bug'']\<rparr>"
  let ?w1 = "?w\<lparr>remote := mock_with_issue\<lparr>GetCalled := 1\<rparr>,
               trace := trace ?w
                 @ [Call_Get ''fake-token'' (Repo (Spec ?stale)) (IssueNumber (Status ?stale))]\<rparr>"
  have a: "client_Get fake_client namespacedName (cluster ?w) = Inr ?stale"
    by (simp add: fake_defs test_defs)
  have b: "client_Get_Secret fake_client (secret_key ?stale) (cluster ?w) = Inr test_secret"
    by (simp add: fake_defs test_defs synced_issue_def)
  have c: "Data test_secret ''token'' = Some ''fake-token''"
    by (simp add: test_secret_def)
  have d: "IsZero (DeletionTimestamp ?stale)"
    by (simp add: IsZero_def synced_issue_def test_issue_def)
  have e: "ContainsFinalizer ?stale githubIssueFinalizer"
    by (simp add: ContainsFinalizer_def synced_issue_def)
  have f: "IssueNumber (Status ?stale) \<noteq> 0"
    by (simp add: synced_issue_def)
  have g: "Get MockProvider_impl ''fake-token'' (Repo (Spec ?stale))
             (IssueNumber (Status ?stale)) (remote ?w)
           = (Inr ?current, mock_with_issue\<lparr>GetCalled := 1\<rparr>)"
    by (simp add: mock_defs mock_with_issue_def synced_issue_def test_defs create_input_def
        Let_def)
  have h: "State ?current = ''open''"
    by simp
  have i: "Title ?current = spec_Title (Spec ?stale)"
    and j: "Body ?current = spec_Body (Spec ?stale)"
    by (simp_all add: synced_issue_def test_issue_def)
  have k: "labelsMatch (Labels ?current) (spec_Labels (Spec ?stale))"
    by (simp add: labelsMatch_iff_mset synced_issue_def test_issue_def)
  have s1: "Reconcile fake_client MockProvider_impl namespacedName ?w
              = Reconcile_sync fake_client MockProvider_impl ''fake-token'' ?stale ?w"
    using d e f by (simp add: Reconcile_steps [where r = fake_client, OF a b c])
  have s2: "Reconcile_sync fake_client MockProvider_impl ''fake-token'' ?stale ?w
              = sync_status fake_client ?stale ?current ?w1"
    by (rule sync_step_in_sync [OF g h i j k])
  have s3: "snd (sync_status fake_client ?stale ?current ?w1)
              = \<lparr>cluster = test_cluster synced_issue test_secret,
                 remote = mock_with_issue\<lparr>GetCalled := 1\<rparr>,
                 trace = [Call_Get ''fake-token'' ''owner/repo'' 1,
                          Write_Status_Update synced_issue]\<rparr>"
    by (simp add: sync_status_def write_Status_Update_def fake_defs test_defs synced_issue_def)
  have run: "snd (Reconcile fake_client MockProvider_impl namespacedName ?w)
              = \<lparr>cluster = test_cluster synced_issue test_secret,
                 remote = mock_with_issue\<lparr>GetCalled := 1\<rparr>,
                 trace = [Call_Get ''fake-token'' ''owner/repo'' 1,
                          Write_Status_Update synced_issue]\<rparr>"
    by (simp only: s1 s2 s3)
  have c1: "new_writes ?w (snd (Reconcile fake_client MockProvider_impl namespacedName ?w))
              = [synced_issue]"
    unfolding run by (simp add: new_writes_def test_world_def)
  then have m: "synced_issue
      \<in> set (new_writes ?w (snd (Reconcile fake_client MockProvider_impl namespacedName ?w)))"
    by simp
  note t = IssueNumber_never_reset [where r = fake_client and ip = MockProvider_impl
      and req = namespacedName and w = ?w and issue = ?stale and ob = synced_issue
      and fw = ?w and iq = MockProvider_impl and stored = ?stale]
  from t a m f have "IssueNumber (Status synced_issue) = IssueNumber (Status ?stale)"
    by blast
  then have c2: "IssueNumber (Status synced_issue) = 1"
    by (simp add: synced_issue_def)
  have c3: "objects (cluster (snd (Reconcile fake_client MockProvider_impl namespacedName ?w)))
              namespacedName = Some synced_issue"
    unfolding run by (simp add: test_cluster_def)
  from c1 c2 c3 show ?thesis
    by (intro conjI)
qed

end
